theory Spec2Isabelle
  imports Main
begin

section \<open>Exceptions\<close>

text \<open>
  The typed exceptions of \<^verbatim>\<open>galaxy.exceptions\<close> that the modelled code raises, together
  with the Python built-in \<^verbatim>\<open>AttributeError\<close> and \<^verbatim>\<open>IndexError\<close> that an attribute
  access on \<^verbatim>\<open>None\<close> or an index into an empty list raises, and the
  \<^verbatim>\<open>InvalidToken\<close> of the \<^verbatim>\<open>cryptography\<close> package. A function that can raise
  returns a sum: \<open>Inl\<close> carries the exception, \<open>Inr\<close> the value.
\<close>

datatype error =
    ObjectNotFound
  | ItemAccessibilityException
  | ItemDeletionException
  | ItemOwnershipException
  | RequestParameterInvalidException
  | ConfigurationError
  | AttributeError
  | IndexError
  | InvalidToken

section \<open>Visualizations: \<^verbatim>\<open>lib/galaxy/webapps/galaxy/services/visualizations.py\<close>\<close>

subsection \<open>Values and truthiness\<close>

text \<open>
  A value as it arrives in a request body. \<open>JNull\<close> is Python's \<^verbatim>\<open>None\<close>; a
  dictionary keeps its keys in insertion order, as a Python \<^verbatim>\<open>dict\<close> does.
\<close>

datatype json =
    JNull
  | JBool bool
  | JInt int
  | JStr string
  | JList "json list"
  | JDict "(string \<times> json) list"

type_synonym config_dict = "(string \<times> json) list"

text \<open>
  Python's \<^verbatim>\<open>a or b\<close> on attributes that may be \<^verbatim>\<open>None\<close>: the value is \<open>a\<close> when
  \<open>a\<close> is truthy and \<open>b\<close> otherwise. \<^verbatim>\<open>None\<close>, the empty string, \<^verbatim>\<open>False\<close> and the
  empty dictionary are falsy.
\<close>

definition py_or :: "('a \<Rightarrow> bool) \<Rightarrow> 'a option \<Rightarrow> 'a option \<Rightarrow> 'a option" where
  "py_or truthy a b = (case a of None \<Rightarrow> b | Some x \<Rightarrow> if truthy x then a else b)"

definition truthy_str :: "string \<Rightarrow> bool" where
  "truthy_str s = (s \<noteq> [])"

definition truthy_bool :: "bool \<Rightarrow> bool" where
  "truthy_bool b = b"

definition truthy_dict :: "config_dict \<Rightarrow> bool" where
  "truthy_dict d = (d \<noteq> [])"

definition truthy :: "('a \<Rightarrow> bool) \<Rightarrow> 'a option \<Rightarrow> bool" where
  "truthy t a = (case a of None \<Rightarrow> False | Some x \<Rightarrow> t x)"

subsection \<open>The data model\<close>

text \<open>
  \<^verbatim>\<open>VisualizationRevision\<close> and \<^verbatim>\<open>Visualization\<close> with the attributes the service reads
  and writes. Every column may hold \<^verbatim>\<open>None\<close>. \<open>revisions\<close> is the relationship
  collection \<^verbatim>\<open>visualization.revisions\<close>, oldest first.
\<close>

record visualization_revision =
  rev_id :: int
  rev_title :: "string option"
  rev_dbkey :: "string option"
  rev_config :: "config_dict option"

record visualization =
  vis_id :: int
  vis_user :: int
  vis_title :: "string option"
  vis_deleted :: "bool option"
  vis_importable :: "bool option"
  latest_revision :: "visualization_revision option"
  revisions :: "visualization_revision list"

text \<open>
  The committed content of \<^verbatim>\<open>trans.sa_session\<close>: the visualizations by primary key and
  the two sequences the database draws new primary keys from.
\<close>

record sa_session =
  visualizations :: "int \<rightharpoonup> visualization"
  next_visualization_id :: int
  next_revision_id :: int

text \<open>
  \<^verbatim>\<open>trans\<close> with its current user (\<open>None\<close> for an anonymous caller).
\<close>

record galaxy_user =
  gu_id :: int
  username :: string

record trans =
  user :: "galaxy_user option"
  user_is_admin :: bool

text \<open>
  \<^verbatim>\<open>payload.model_dump()\<close> of a \<^verbatim>\<open>VisualizationUpdatePayload\<close>: the four fields
  \<^verbatim>\<open>update\<close> reads, each a value of any type (\<open>JNull\<close> when the field is not
  set).
\<close>

record payload_dump =
  dump_title :: json
  dump_dbkey :: json
  dump_deleted :: json
  dump_config :: json

text \<open>
  The \<^verbatim>\<open>VisualizationUpdatePayload\<close> rebuilt from the validated keys. A key that
  validation dropped takes the model's default, read here as \<^verbatim>\<open>None\<close>; \<^verbatim>\<open>update\<close>
  only tests these fields for truthiness, so any falsy default behaves alike.
\<close>

record VisualizationUpdatePayload =
  title :: "string option"
  dbkey :: "string option"
  deleted :: "bool option"
  config :: "config_dict option"

subsection \<open>\<^verbatim>\<open>_validate_and_parse_payload\<close>\<close>

text \<open>
  One iteration of the loop for a key whose value must be a string: \<^verbatim>\<open>None\<close> is
  skipped, a string is passed through \<^verbatim>\<open>sanitize_html\<close>, anything else raises.
  \<^verbatim>\<open>sanitize_html\<close> (\<^verbatim>\<open>galaxy.util.sanitize_html\<close>) is a parameter.
\<close>

definition validate_str :: "(string \<Rightarrow> string) \<Rightarrow> json \<Rightarrow> error + string option" where
  "validate_str sanitize_html val =
     (case val of
        JNull \<Rightarrow> Inr None
      | JStr s \<Rightarrow> Inr (Some (sanitize_html s))
      | _ \<Rightarrow> Inl RequestParameterInvalidException)"

definition validate_bool :: "json \<Rightarrow> error + bool option" where
  "validate_bool val =
     (case val of
        JNull \<Rightarrow> Inr None
      | JBool b \<Rightarrow> Inr (Some b)
      | _ \<Rightarrow> Inl RequestParameterInvalidException)"

definition validate_dict :: "json \<Rightarrow> error + config_dict option" where
  "validate_dict val =
     (case val of
        JNull \<Rightarrow> Inr None
      | JDict d \<Rightarrow> Inr (Some d)
      | _ \<Rightarrow> Inl RequestParameterInvalidException)"

definition validate_and_parse_payload ::
  "(string \<Rightarrow> string) \<Rightarrow> payload_dump \<Rightarrow> error + VisualizationUpdatePayload" where
  "validate_and_parse_payload sanitize_html payload =
     (case validate_str sanitize_html (dump_title payload) of
        Inl e \<Rightarrow> Inl e
      | Inr t \<Rightarrow>
     (case validate_str sanitize_html (dump_dbkey payload) of
        Inl e \<Rightarrow> Inl e
      | Inr k \<Rightarrow>
     (case validate_bool (dump_deleted payload) of
        Inl e \<Rightarrow> Inl e
      | Inr d \<Rightarrow>
     (case validate_dict (dump_config payload) of
        Inl e \<Rightarrow> Inl e
      | Inr c \<Rightarrow> Inr \<lparr>title = t, dbkey = k, deleted = d, config = c\<rparr>))))"

subsection \<open>\<^verbatim>\<open>_get_visualization\<close>\<close>

text \<open>
  \<^verbatim>\<open>security_check\<close> (\<^verbatim>\<open>galaxy.managers.base\<close>) is a parameter: given \<^verbatim>\<open>trans\<close>, the
  item and the two flags it either raises (\<open>Some e\<close>) or returns the item it was given
  (\<open>None\<close>).
\<close>

type_synonym security_check = "trans \<Rightarrow> visualization \<Rightarrow> bool \<Rightarrow> bool \<Rightarrow> error option"

definition get_visualization ::
  "security_check \<Rightarrow> trans \<Rightarrow> sa_session \<Rightarrow> int \<Rightarrow> bool \<Rightarrow> bool \<Rightarrow> error + visualization" where
  "get_visualization security_check tr db visualization_id check_ownership check_accessible =
     (case visualizations db visualization_id of
        None \<Rightarrow> Inl ObjectNotFound
      | Some visualization \<Rightarrow>
          (case security_check tr visualization check_ownership check_accessible of
             Some e \<Rightarrow> Inl e
           | None \<Rightarrow> Inr visualization))"

subsection \<open>\<^verbatim>\<open>_add_visualization_revision\<close>\<close>

text \<open>
  Builds the revision, which joins \<^verbatim>\<open>visualization.revisions\<close> through the
  \<^verbatim>\<open>visualization=\<close> argument of its constructor, repoints
  \<^verbatim>\<open>visualization.latest_revision\<close> and commits; the commit gives the revision its id.
\<close>

definition add_visualization_revision ::
  "sa_session \<Rightarrow> visualization \<Rightarrow> config_dict option \<Rightarrow> string option \<Rightarrow> string option
     \<Rightarrow> visualization_revision \<times> visualization \<times> sa_session" where
  "add_visualization_revision db visualization cfg ttl key =
     (let revision = \<lparr>rev_id = next_revision_id db, rev_title = ttl, rev_dbkey = key,
                       rev_config = cfg\<rparr>;
          visualization' = visualization\<lparr>latest_revision := Some revision,
                            revisions := revisions visualization @ [revision]\<rparr>
      in (revision, visualization',
          db\<lparr>visualizations := (visualizations db)(vis_id visualization \<mapsto> visualization'),
             next_revision_id := next_revision_id db + 1\<rparr>))"

subsection \<open>\<^verbatim>\<open>update\<close>\<close>

text \<open>
  \<^verbatim>\<open>json.dumps\<close> is a parameter \<open>json_dumps\<close>. The result pairs what the call returns or
  raises with the session afterwards; \<open>Inr (Some (i, r))\<close> is the response
  \<^verbatim>\<open>{"id": i, "revision": r}\<close> and \<open>Inr None\<close> the return value \<^verbatim>\<open>None\<close>.
\<close>

definition update ::
  "(string \<Rightarrow> string) \<Rightarrow> (config_dict option \<Rightarrow> string) \<Rightarrow> security_check \<Rightarrow> trans \<Rightarrow> sa_session
     \<Rightarrow> int \<Rightarrow> payload_dump \<Rightarrow> (error + (int \<times> int) option) \<times> sa_session" where
  "update sanitize_html json_dumps security_check tr db visualization_id payload =
     (case validate_and_parse_payload sanitize_html payload of
        Inl e \<Rightarrow> (Inl e, db)
      | Inr payload' \<Rightarrow>
     (case get_visualization security_check tr db visualization_id True False of
        Inl e \<Rightarrow> (Inl e, db)
      | Inr visualization \<Rightarrow>
     (case latest_revision visualization of
        None \<Rightarrow> (Inl AttributeError, db)
      | Some latest \<Rightarrow>
          (let ttl = py_or truthy_str (title payload') (rev_title latest);
               key = py_or truthy_str (dbkey payload') (rev_dbkey latest);
               del = py_or truthy_bool (deleted payload') (vis_deleted visualization);
               cfg = py_or truthy_dict (config payload') (rev_config latest);
               (rval, visualization1, db1) =
                 (if ttl \<noteq> rev_title latest \<or> key \<noteq> rev_dbkey latest \<or>
                     json_dumps cfg \<noteq> json_dumps (rev_config latest)
                  then (case add_visualization_revision db visualization cfg ttl key of
                          (revision, v, d) \<Rightarrow> (Some (visualization_id, rev_id revision), v, d))
                  else (None, visualization, db));
               visualization2 = visualization1\<lparr>vis_title := ttl, vis_deleted := del\<rparr>
           in (Inr rval,
               db1\<lparr>visualizations :=
                     (visualizations db1)(vis_id visualization \<mapsto> visualization2)\<rparr>)))))"

subsection \<open>\<^verbatim>\<open>json.dumps\<close> of the standard library\<close>

text \<open>
  Where a concrete serialisation is needed, \<open>py_json_dumps\<close> stands for Python's
  \<^verbatim>\<open>json.dumps\<close> with its default arguments: items separated by a comma and a space,
  keys and values by a colon and a space, dictionary items in insertion order
  (\<^verbatim>\<open>sort_keys=False\<close>), strings in double quotes with every character outside the
  printable ASCII range, the quote and the backslash escaped (\<^verbatim>\<open>ensure_ascii=True\<close>).
  A character of the model is a code point below 256.
\<close>

definition hex_digit :: "nat \<Rightarrow> char" where
  "hex_digit n = ''0123456789abcdef'' ! n"

definition escape_char :: "char \<Rightarrow> string" where
  "escape_char c =
     (if c = CHR 0x22 then [CHR 0x5C, CHR 0x22]
      else if c = CHR 0x5C then [CHR 0x5C, CHR 0x5C]
      else if c = CHR 0x0A then [CHR 0x5C, CHR ''n'']
      else if c = CHR 0x0D then [CHR 0x5C, CHR ''r'']
      else if c = CHR 0x09 then [CHR 0x5C, CHR ''t'']
      else if c = CHR 0x08 then [CHR 0x5C, CHR ''b'']
      else if c = CHR 0x0C then [CHR 0x5C, CHR ''f'']
      else if 0x20 \<le> (of_char c :: nat) \<and> (of_char c :: nat) \<le> 0x7E then [c]
      else [CHR 0x5C, CHR ''u'', CHR ''0'', CHR ''0'',
            hex_digit (of_char c div 16), hex_digit (of_char c mod 16)])"

definition encode_basestring_ascii :: "string \<Rightarrow> string" where
  "encode_basestring_ascii s = CHR 0x22 # concat (map escape_char s) @ [CHR 0x22]"

fun repr_nat :: "nat \<Rightarrow> string" where
  "repr_nat n =
     (if n < 10 then [''0123456789'' ! n]
      else repr_nat (n div 10) @ [''0123456789'' ! (n mod 10)])"

definition repr_int :: "int \<Rightarrow> string" where
  "repr_int i = (if i < 0 then CHR ''-'' # repr_nat (nat (- i)) else repr_nat (nat i))"

fun join :: "string \<Rightarrow> string list \<Rightarrow> string" where
  "join sep [] = []"
| "join sep [x] = x"
| "join sep (x # y # ys) = x @ sep @ join sep (y # ys)"

fun py_dumps :: "json \<Rightarrow> string" where
  "py_dumps JNull = ''null''"
| "py_dumps (JBool b) = (if b then ''true'' else ''false'')"
| "py_dumps (JInt i) = repr_int i"
| "py_dumps (JStr s) = encode_basestring_ascii s"
| "py_dumps (JList xs) = ''['' @ join '', '' (map py_dumps xs) @ '']''"
| "py_dumps (JDict kvs) =
     ''{'' @ join '', '' (map (\<lambda>(k, v). encode_basestring_ascii k @ '': '' @ py_dumps v) kvs)
       @ ''}''"

definition py_json_dumps :: "config_dict option \<Rightarrow> string" where
  "py_json_dumps c = (case c of None \<Rightarrow> ''null'' | Some d \<Rightarrow> py_dumps (JDict d))"

text \<open>
  Two dictionaries hold the same keys with the same values, in whatever order they were
  inserted. Python's \<^verbatim>\<open>==\<close> on dictionaries ignores the order, so it holds of two such
  dictionaries.
\<close>

definition same_items :: "config_dict \<Rightarrow> config_dict \<Rightarrow> bool" where
  "same_items a b = (distinct (map fst a) \<and> distinct (map fst b) \<and> set a = set b)"

subsection \<open>\<^verbatim>\<open>_import_visualization\<close>\<close>

text \<open>
  \<^verbatim>\<open>Visualization.copy\<close> (\<^verbatim>\<open>galaxy.model\<close>) is a parameter \<open>copy\<close> taking the
  visualization, the new owner and the new title. The f-string renders a title of
  \<^verbatim>\<open>None\<close> as \<^verbatim>\<open>None\<close>. Adding the copy to the session and committing stores it under a
  fresh primary key.
\<close>

definition str_of_title :: "string option \<Rightarrow> string" where
  "str_of_title t = (case t of None \<Rightarrow> ''None'' | Some s \<Rightarrow> s)"

definition import_visualization ::
  "(visualization \<Rightarrow> galaxy_user \<Rightarrow> string \<Rightarrow> visualization) \<Rightarrow> security_check \<Rightarrow> trans \<Rightarrow> sa_session
     \<Rightarrow> int \<Rightarrow> (error + visualization) \<times> sa_session" where
  "import_visualization copy security_check tr db visualization_id =
     (case user tr of
        None \<Rightarrow> (Inl ItemAccessibilityException, db)
      | Some usr \<Rightarrow>
     (case get_visualization security_check tr db visualization_id False False of
        Inl e \<Rightarrow> (Inl e, db)
      | Inr visualization \<Rightarrow>
          if \<not> truthy truthy_bool (vis_importable visualization)
          then (Inl ItemAccessibilityException, db)
          else if truthy truthy_bool (vis_deleted visualization)
          then (Inl ItemDeletionException, db)
          else
            (let imported_visualization =
                   (copy visualization usr
                      (''imported: '' @ str_of_title (vis_title visualization)))
                   \<lparr>vis_id := next_visualization_id db\<rparr>
             in (Inr imported_visualization,
                 db\<lparr>visualizations :=
                       (visualizations db)(next_visualization_id db \<mapsto> imported_visualization),
                    next_visualization_id := next_visualization_id db + 1\<rparr>))))"

section \<open>Chat: \<^verbatim>\<open>lib/galaxy/webapps/galaxy/api/chat.py\<close>\<close>

text \<open>
  A stored \<^verbatim>\<open>ChatExchange\<close> with its messages, oldest first. The objects are ORM
  instances: an exchange and a message are truthy whenever they exist.
\<close>

record chat_exchange_message =
  message :: string

record chat_exchange =
  messages :: "chat_exchange_message list"

text \<open>The three settings of \<^verbatim>\<open>GalaxyAppConfiguration\<close> that the controller reads.\<close>

record GalaxyAppConfiguration =
  openai_api_key :: "string option"
  openai_model :: string
  chat_prompts :: "string \<rightharpoonup> string"

text \<open>
  The message array sent to OpenAI: pairs of a role and a content. The \<^verbatim>\<open>openai\<close>
  module is a parameter: \<open>None\<close> when the import failed, otherwise a function from the
  API key, the model name and the messages to the contents of the response's choices,
  or to \<open>None\<close> when \<^verbatim>\<open>openai.chat.completions.create\<close> raises.
\<close>

type_synonym chat_messages = "(string \<times> string) list"

type_synonym openai_module = "string \<Rightarrow> string \<Rightarrow> chat_messages \<Rightarrow> string list option"

text \<open>
  What a call of \<^verbatim>\<open>query\<close> does besides returning: the configuration check, the
  request to OpenAI, and the creation of a stored exchange.
\<close>

datatype effect =
    EnsureOpenAIConfigured
  | CallOpenAI chat_messages
  | ChatCreate int string

definition DEFAULT_PROMPT :: string where
  "DEFAULT_PROMPT =
     CHR 0x0A # ''Please only say that something went wrong when configuing the ai prompt in your response.''
       @ [CHR 0x0A]"

definition get_system_prompt :: "GalaxyAppConfiguration \<Rightarrow> string" where
  "get_system_prompt cfg =
     (case chat_prompts cfg ''tool_error'' of None \<Rightarrow> DEFAULT_PROMPT | Some p \<Rightarrow> p)"

definition get_user_context_message :: "trans \<Rightarrow> string" where
  "get_user_context_message tr =
     (case user tr of
        Some u \<Rightarrow> ''You will address the user as '' @ username u
      | None \<Rightarrow> ''You will address the user as Anonymous User'')"

definition build_messages :: "GalaxyAppConfiguration \<Rightarrow> string \<Rightarrow> trans \<Rightarrow> chat_messages" where
  "build_messages cfg payload_query tr =
     (let msgs = [(''system'', get_system_prompt cfg), (''user'', payload_query)];
          user_msg = get_user_context_message tr
      in if user_msg \<noteq> [] then msgs @ [(''system'', user_msg)] else msgs)"

text \<open>
  \<^verbatim>\<open>_ensure_openai_configured\<close>: raises when the module is missing or no key is
  configured; otherwise it sets \<^verbatim>\<open>openai.api_key\<close>, so what is returned here is the
  module with the key in place.
\<close>

definition ensure_openai_configured ::
  "openai_module option \<Rightarrow> GalaxyAppConfiguration
     \<Rightarrow> error + (string \<Rightarrow> chat_messages \<Rightarrow> string list option)" where
  "ensure_openai_configured openai cfg =
     (case openai of
        None \<Rightarrow> Inl ConfigurationError
      | Some api \<Rightarrow>
          (case openai_api_key cfg of
             None \<Rightarrow> Inl ConfigurationError
           | Some k \<Rightarrow> Inr (api k)))"

definition call_openai ::
  "(string \<Rightarrow> chat_messages \<Rightarrow> string list option) \<Rightarrow> GalaxyAppConfiguration \<Rightarrow> chat_messages
     \<Rightarrow> error + string list" where
  "call_openai client cfg msgs =
     (case client (openai_model cfg) msgs of
        None \<Rightarrow> Inl ConfigurationError
      | Some choices \<Rightarrow> Inr choices)"

text \<open>
  The first block of \<^verbatim>\<open>query\<close>: the stored first message when there is one.
  \<^verbatim>\<open>if job_id:\<close> holds for an id that is neither \<^verbatim>\<open>None\<close> nor zero. Indexing
  an exchange that has no message raises \<^verbatim>\<open>IndexError\<close>. \<^verbatim>\<open>ChatManager.get\<close> is the
  parameter \<open>chat_get\<close>, a lookup in the store \<open>db\<close>.
\<close>

definition existing_message ::
  "('s \<Rightarrow> trans \<Rightarrow> int \<Rightarrow> chat_exchange option) \<Rightarrow> trans \<Rightarrow> 's \<Rightarrow> int option
     \<Rightarrow> error + string option" where
  "existing_message chat_get tr db job_id =
     (case job_id of
        None \<Rightarrow> Inr None
      | Some j \<Rightarrow>
          if j = 0 then Inr None
          else
            (case chat_get db tr j of
               None \<Rightarrow> Inr None
             | Some existing_response \<Rightarrow>
                 (case messages existing_response of
                    [] \<Rightarrow> Inl IndexError
                  | m # _ \<Rightarrow> Inr (Some (message m)))))"

text \<open>
  \<^verbatim>\<open>ChatAPI.query\<close>. \<^verbatim>\<open>ChatManager.create\<close> is the parameter \<open>chat_create\<close>. The result
  is what the call returns or raises, the effects it performed in order, and the store
  afterwards.
\<close>

definition query ::
  "openai_module option \<Rightarrow> GalaxyAppConfiguration \<Rightarrow> ('s \<Rightarrow> trans \<Rightarrow> int \<Rightarrow> chat_exchange option)
     \<Rightarrow> ('s \<Rightarrow> trans \<Rightarrow> int \<Rightarrow> string \<Rightarrow> 's) \<Rightarrow> trans \<Rightarrow> 's \<Rightarrow> int option \<Rightarrow> string
     \<Rightarrow> (error + string) \<times> effect list \<times> 's" where
  "query openai cfg chat_get chat_create tr db job_id payload_query =
     (case existing_message chat_get tr db job_id of
        Inl e \<Rightarrow> (Inl e, [], db)
      | Inr (Some stored) \<Rightarrow> (Inr stored, [], db)
      | Inr None \<Rightarrow>
     (case ensure_openai_configured openai cfg of
        Inl e \<Rightarrow> (Inl e, [EnsureOpenAIConfigured], db)
      | Inr client \<Rightarrow>
          (let msgs = build_messages cfg payload_query tr
           in case call_openai client cfg msgs of
                Inl e \<Rightarrow> (Inl e, [EnsureOpenAIConfigured, CallOpenAI msgs], db)
              | Inr choices \<Rightarrow>
                  (case choices of
                     [] \<Rightarrow> (Inl IndexError, [EnsureOpenAIConfigured, CallOpenAI msgs], db)
                   | answer # _ \<Rightarrow>
                       (case job_id of
                          Some j \<Rightarrow>
                            if j \<noteq> 0
                            then (Inr answer,
                                  [EnsureOpenAIConfigured, CallOpenAI msgs, ChatCreate j answer],
                                  chat_create db tr j answer)
                            else (Inr answer, [EnsureOpenAIConfigured, CallOpenAI msgs], db)
                        | None \<Rightarrow>
                            (Inr answer, [EnsureOpenAIConfigured, CallOpenAI msgs], db))))))"

section \<open>Migration \<^verbatim>\<open>d0583094c8cd_add_quota_source_labels.py\<close>\<close>

subsection \<open>Schemas\<close>

text \<open>
  A \<^verbatim>\<open>Column\<close> as the migration declares it: name, type, and the keyword arguments
  \<^verbatim>\<open>primary_key\<close>, \<^verbatim>\<open>index\<close> and a \<^verbatim>\<open>ForeignKey\<close> target.
\<close>

datatype sql_type = SqlInteger | SqlString nat | SqlNumeric nat nat

record column =
  col_name :: string
  col_type :: sql_type
  col_primary_key :: bool
  col_foreign_key :: "string option"
  col_index :: bool

record index_def =
  ix_name :: string
  ix_table :: string
  ix_columns :: "string list"
  ix_unique :: bool

record unique_constraint =
  uc_name :: string
  uc_table :: string
  uc_columns :: "string list"

text \<open>
  A schema: the tables by name with their columns, the named indexes and the named
  unique constraints.
\<close>

record schema =
  tables :: "string \<rightharpoonup> column list"
  indexes :: "index_def set"
  unique_constraints :: "unique_constraint set"

subsection \<open>The helpers of \<^verbatim>\<open>galaxy.model.migrations.util\<close>\<close>

text \<open>
  The module \<^verbatim>\<open>galaxy.model.migrations.util\<close> is not among the sources. The spec
  describes "a relational schema evolved via linear migration scripts"; each helper is
  read as the one schema change its name and arguments state.
\<close>

text \<open>
  Modelled from the spec: \<^verbatim>\<open>add_column\<close> of \<^verbatim>\<open>galaxy.model.migrations.util\<close> appends
  the column to the table; a table that does not exist leaves the schema as it is.
\<close>

definition add_column :: "string \<Rightarrow> column \<Rightarrow> schema \<Rightarrow> schema" where
  "add_column table_name c s =
     (case tables s table_name of
        None \<Rightarrow> s
      | Some cols \<Rightarrow> s\<lparr>tables := (tables s)(table_name \<mapsto> cols @ [c])\<rparr>)"

text \<open>
  Modelled from the spec: \<^verbatim>\<open>drop_column\<close> of \<^verbatim>\<open>galaxy.model.migrations.util\<close> removes
  the table's column of that name.
\<close>

definition drop_column :: "string \<Rightarrow> string \<Rightarrow> schema \<Rightarrow> schema" where
  "drop_column table_name column_name s =
     (case tables s table_name of
        None \<Rightarrow> s
      | Some cols \<Rightarrow>
          s\<lparr>tables := (tables s)(table_name \<mapsto> filter (\<lambda>c. col_name c \<noteq> column_name) cols)\<rparr>)"

text \<open>
  Modelled from the spec: \<^verbatim>\<open>create_table\<close> of \<^verbatim>\<open>galaxy.model.migrations.util\<close> adds the
  table with the given columns.
\<close>

definition create_table :: "string \<Rightarrow> column list \<Rightarrow> schema \<Rightarrow> schema" where
  "create_table table_name cols s = s\<lparr>tables := (tables s)(table_name \<mapsto> cols)\<rparr>"

text \<open>
  Modelled from the spec: \<^verbatim>\<open>drop_table\<close> of \<^verbatim>\<open>galaxy.model.migrations.util\<close> removes the
  table and, with it, the indexes and unique constraints on it.
\<close>

definition drop_table :: "string \<Rightarrow> schema \<Rightarrow> schema" where
  "drop_table table_name s =
     s\<lparr>tables := (tables s)(table_name := None),
       indexes := {i \<in> indexes s. ix_table i \<noteq> table_name},
       unique_constraints := {u \<in> unique_constraints s. uc_table u \<noteq> table_name}\<rparr>"

text \<open>
  Modelled from the spec: \<^verbatim>\<open>add_unique_constraint\<close> of \<^verbatim>\<open>galaxy.model.migrations.util\<close>
  adds a named unique constraint over the given columns of the table.
\<close>

definition add_unique_constraint :: "string \<Rightarrow> string \<Rightarrow> string list \<Rightarrow> schema \<Rightarrow> schema" where
  "add_unique_constraint name table_name cols s =
     s\<lparr>unique_constraints :=
         insert \<lparr>uc_name = name, uc_table = table_name, uc_columns = cols\<rparr> (unique_constraints s)\<rparr>"

text \<open>
  Modelled from the spec: \<^verbatim>\<open>drop_unique_constraint\<close> of
  \<^verbatim>\<open>galaxy.model.migrations.util\<close> removes the table's unique constraint of that name.
\<close>

definition drop_unique_constraint :: "string \<Rightarrow> string \<Rightarrow> schema \<Rightarrow> schema" where
  "drop_unique_constraint name table_name s =
     s\<lparr>unique_constraints :=
         {u \<in> unique_constraints s. \<not> (uc_name u = name \<and> uc_table u = table_name)}\<rparr>"

text \<open>
  Modelled from the spec: \<^verbatim>\<open>create_index\<close> of \<^verbatim>\<open>galaxy.model.migrations.util\<close> adds a
  named index over the given columns of the table, unique when \<^verbatim>\<open>unique=True\<close>.
\<close>

definition create_index :: "string \<Rightarrow> string \<Rightarrow> string list \<Rightarrow> bool \<Rightarrow> schema \<Rightarrow> schema" where
  "create_index name table_name cols uniq s =
     s\<lparr>indexes :=
         insert \<lparr>ix_name = name, ix_table = table_name, ix_columns = cols, ix_unique = uniq\<rparr>
           (indexes s)\<rparr>"

text \<open>
  Modelled from the spec: \<^verbatim>\<open>drop_index\<close> of \<^verbatim>\<open>galaxy.model.migrations.util\<close> removes the
  table's index of that name.
\<close>

definition drop_index :: "string \<Rightarrow> string \<Rightarrow> schema \<Rightarrow> schema" where
  "drop_index name table_name s =
     s\<lparr>indexes := {i \<in> indexes s. \<not> (ix_name i = name \<and> ix_table i = table_name)}\<rparr>"

subsection \<open>\<^verbatim>\<open>upgrade\<close> and \<^verbatim>\<open>downgrade\<close>\<close>

text \<open>
  \<^verbatim>\<open>Column(name, type)\<close> with no keyword argument; the keyword arguments of the
  migration's columns are set on top of it.
\<close>

definition Column :: "string \<Rightarrow> sql_type \<Rightarrow> column" where
  "Column name ty =
     \<lparr>col_name = name, col_type = ty, col_primary_key = False, col_foreign_key = None,
      col_index = False\<rparr>"

definition user_quota_source_usage_columns :: "column list" where
  "user_quota_source_usage_columns =
     [(Column ''id'' SqlInteger)\<lparr>col_primary_key := True\<rparr>,
      (Column ''user_id'' SqlInteger)\<lparr>col_foreign_key := Some ''galaxy_user.id'', col_index := True\<rparr>,
      (Column ''quota_source_label'' (SqlString 32))\<lparr>col_index := True\<rparr>,
      Column ''disk_usage'' (SqlNumeric 15 0)]"

text \<open>
  The two functions of the migration script, statement by statement; \<^verbatim>\<open>create_index\<close>
  without \<^verbatim>\<open>unique\<close> creates a plain index.
\<close>

definition upgrade :: "schema \<Rightarrow> schema" where
  "upgrade s0 =
     (let s1 = add_column ''quota'' (Column ''quota_source_label'' (SqlString 32)) s0;
          s2 = create_table ''user_quota_source_usage'' user_quota_source_usage_columns s1;
          s3 = add_unique_constraint ''uqsu_unique_label_per_user'' ''user_quota_source_usage''
                 [''user_id'', ''quota_source_label''] s2;
          s4 = drop_index ''ix_default_quota_association_type'' ''default_quota_association'' s3;
          s5 = create_index ''ix_quota_quota_source_label'' ''quota'' [''quota_source_label''] False s4
      in s5)"

definition downgrade :: "schema \<Rightarrow> schema" where
  "downgrade s0 =
     (let s1 = drop_index ''ix_quota_quota_source_label'' ''quota'' s0;
          s2 = create_index ''ix_default_quota_association_type'' ''default_quota_association''
                 [''type''] True s1;
          s3 = drop_unique_constraint ''uqsu_unique_label_per_user'' ''user_quota_source_usage'' s2;
          s4 = drop_table ''user_quota_source_usage'' s3;
          s5 = drop_column ''quota'' ''quota_source_label'' s4
      in s5)"

subsection \<open>Rows under a unique constraint\<close>

text \<open>
  A row gives every column a value; \<open>None\<close> is SQL's \<^verbatim>\<open>NULL\<close>. The migration declares
  no column of \<^verbatim>\<open>user_quota_source_usage\<close> as \<^verbatim>\<open>nullable=False\<close>.
\<close>

datatype sql_value = SqlInt int | SqlStr string

type_synonym row = "string \<Rightarrow> sql_value option"

record database =
  db_schema :: schema
  db_rows :: "string \<Rightarrow> row list"

text \<open>
  The database engine is not part of the repository. The spec states the constraint's
  meaning as "one usage row per user+label pair".
\<close>

text \<open>
  Modelled from the spec: two rows agree on a list of columns when they hold the same
  values in all of them, none \<^verbatim>\<open>NULL\<close>.
\<close>

definition agree_on :: "string list \<Rightarrow> row \<Rightarrow> row \<Rightarrow> bool" where
  "agree_on cols r r' = list_all (\<lambda>c. r c \<noteq> None \<and> r c = r' c) cols"

text \<open>
  Modelled from the spec: a row violates a unique constraint of its table when a stored
  row of the table agrees with it on the constraint's columns.
\<close>

definition violates :: "schema \<Rightarrow> string \<Rightarrow> row list \<Rightarrow> row \<Rightarrow> bool" where
  "violates s table_name stored r =
     (\<exists>u \<in> unique_constraints s. uc_table u = table_name \<and>
        (\<exists>r' \<in> set stored. agree_on (uc_columns u) r r'))"

text \<open>
  Modelled from the spec: the statements that change rows. An insert or an update that
  would violate a constraint of the table is rejected (\<open>None\<close>) and changes nothing; a
  delete and an update address a row by its position.
\<close>

datatype statement =
    Insert string row
  | Delete string nat
  | Update string nat row

definition execute :: "statement \<Rightarrow> database \<Rightarrow> database option" where
  "execute st db =
     (case st of
        Insert t r \<Rightarrow>
          if tables (db_schema db) t = None \<or> violates (db_schema db) t (db_rows db t) r
          then None
          else Some (db\<lparr>db_rows := (db_rows db)(t := db_rows db t @ [r])\<rparr>)
      | Delete t n \<Rightarrow>
          if tables (db_schema db) t = None \<or> length (db_rows db t) \<le> n
          then None
          else Some (db\<lparr>db_rows := (db_rows db)(t := take n (db_rows db t) @ drop (Suc n) (db_rows db t))\<rparr>)
      | Update t n r \<Rightarrow>
          if tables (db_schema db) t = None \<or> length (db_rows db t) \<le> n \<or>
             violates (db_schema db) t (take n (db_rows db t) @ drop (Suc n) (db_rows db t)) r
          then None
          else Some (db\<lparr>db_rows := (db_rows db)(t := (db_rows db t)[n := r])\<rparr>))"

text \<open>
  Running the upgrade on a database: the schema changes as \<^verbatim>\<open>upgrade\<close> says and the
  created table starts empty.
\<close>

definition run_upgrade :: "database \<Rightarrow> database" where
  "run_upgrade db =
     \<lparr>db_schema = upgrade (db_schema db),
      db_rows = (db_rows db)(''user_quota_source_usage'' := [])\<rparr>"

text \<open>The states reachable after the upgrade by executing statements.\<close>

inductive reachable :: "database \<Rightarrow> database \<Rightarrow> bool" where
  upgraded: "reachable db0 (run_upgrade db0)"
| executed: "reachable db0 db \<Longrightarrow> execute st db = Some db' \<Longrightarrow> reachable db0 db'"

text \<open>
  The schema the migration is written for (revision \<^verbatim>\<open>c39f1de47a04\<close>), as far as the
  migration shows it: no table \<^verbatim>\<open>user_quota_source_usage\<close> and nothing attached to that
  name, no column \<^verbatim>\<open>quota.quota_source_label\<close> and no index
  \<^verbatim>\<open>ix_quota_quota_source_label\<close>, and \<^verbatim>\<open>ix_default_quota_association_type\<close> the unique
  index on \<^verbatim>\<open>default_quota_association.type\<close> that \<^verbatim>\<open>downgrade\<close> creates.
\<close>

definition default_quota_association_type_index :: index_def where
  "default_quota_association_type_index =
     \<lparr>ix_name = ''ix_default_quota_association_type'', ix_table = ''default_quota_association'',
      ix_columns = [''type''], ix_unique = True\<rparr>"

definition prior_schema :: "schema \<Rightarrow> bool" where
  "prior_schema s =
     (tables s ''user_quota_source_usage'' = None \<and>
      (\<forall>i \<in> indexes s. ix_table i \<noteq> ''user_quota_source_usage'') \<and>
      (\<forall>u \<in> unique_constraints s. uc_table u \<noteq> ''user_quota_source_usage'') \<and>
      (case tables s ''quota'' of
         None \<Rightarrow> True
       | Some cols \<Rightarrow> list_all (\<lambda>c. col_name c \<noteq> ''quota_source_label'') cols) \<and>
      (\<forall>i \<in> indexes s. \<not> (ix_name i = ''ix_quota_quota_source_label'' \<and> ix_table i = ''quota'')) \<and>
      default_quota_association_type_index \<in> indexes s \<and>
      (\<forall>i \<in> indexes s.
         ix_name i = ''ix_default_quota_association_type'' \<and>
         ix_table i = ''default_quota_association'' \<longrightarrow>
           i = default_quota_association_type_index))"

text \<open>The rows of the usage table that hold the given user id and label.\<close>

definition usage_rows :: "database \<Rightarrow> sql_value \<Rightarrow> sql_value \<Rightarrow> row list" where
  "usage_rows db uid label =
     filter (\<lambda>r. r ''user_id'' = Some uid \<and> r ''quota_source_label'' = Some label)
       (db_rows db ''user_quota_source_usage'')"

definition uqsu_unique_label_per_user :: unique_constraint where
  "uqsu_unique_label_per_user =
     \<lparr>uc_name = ''uqsu_unique_label_per_user'', uc_table = ''user_quota_source_usage'',
      uc_columns = [''user_id'', ''quota_source_label'']\<rparr>"

text \<open>
  No two rows of a list hold the same non-\<^verbatim>\<open>NULL\<close> values in all the given columns;
  and a database is consistent when the rows of every table are so for every unique
  constraint on the table.
\<close>

fun no_dups :: "string list \<Rightarrow> row list \<Rightarrow> bool" where
  "no_dups cols [] = True"
| "no_dups cols (r # rs) = ((\<forall>r' \<in> set rs. \<not> agree_on cols r r') \<and> no_dups cols rs)"

definition consistent :: "database \<Rightarrow> bool" where
  "consistent db =
     (\<forall>u \<in> unique_constraints (db_schema db). no_dups (uc_columns u) (db_rows db (uc_table u)))"

section \<open>Role-based access control: the association setters of \<^verbatim>\<open>GalaxyRBACAgent\<close>\<close>

subsection \<open>Users, groups, roles and their associations\<close>

text \<open>
  The entities that \<^verbatim>\<open>test/unit/data/model/db/test_security.py\<close> creates: users with an
  email, groups, and roles with a name and a type. The three association tables hold
  one row per association, as pairs of ids.
\<close>

datatype role_type = PRIVATE | OTHER

record rbac_user =
  email :: string

record rbac_role =
  role_name :: string
  role_type :: role_type

record rbac_db =
  users :: "int \<rightharpoonup> rbac_user"
  groups :: "int \<rightharpoonup> string"
  roles :: "int \<rightharpoonup> rbac_role"
  user_group_association :: "(int \<times> int) list"
  user_role_association :: "(int \<times> int) list"
  group_role_association :: "(int \<times> int) list"

definition is_private :: "rbac_db \<Rightarrow> int \<Rightarrow> bool" where
  "is_private db role_id =
     (case roles db role_id of None \<Rightarrow> False | Some r \<Rightarrow> role_type r = PRIVATE)"

subsection \<open>The setters\<close>

text \<open>
  \<^verbatim>\<open>galaxy.model.security\<close>, which defines \<^verbatim>\<open>GalaxyRBACAgent\<close>, is not among the
  sources; only its unit tests are. The spec says of the setters: "Given an anchor
  entity (user, group, or role) and two target ID lists, replaces its association sets
  atomically: drops associations not in the new lists, adds associations not already
  present, leaves unaffected a protected subset (the user's private role). Rejects the
  entire operation (no partial effect) if any ID is invalid or if a duplicate ID appears
  in either list, raising a parameter-validation error."
\<close>

text \<open>
  Modelled from the spec: the check of one id list of a setter of \<^verbatim>\<open>GalaxyRBACAgent\<close>:
  no id twice, every id that of an existing entity.
\<close>

definition valid_ids :: "(int \<rightharpoonup> 'a) \<Rightarrow> int list \<Rightarrow> bool" where
  "valid_ids entities ids = (distinct ids \<and> list_all (\<lambda>i. entities i \<noteq> None) ids)"

text \<open>
  Modelled from the spec: the replacement of one association set by a setter of
  \<^verbatim>\<open>GalaxyRBACAgent\<close>. \<open>rows\<close> is the association table, \<open>anchor\<close> and \<open>target\<close> read
  the anchor's and the target's id off a row and \<open>mk\<close> builds the row of a target. Rows
  of other anchors stay; of the anchor's rows those stay whose target is listed or
  protected; a listed target with no row yet gets one.
\<close>

definition replace_associations ::
  "('r \<Rightarrow> int) \<Rightarrow> ('r \<Rightarrow> int) \<Rightarrow> (int \<Rightarrow> 'r) \<Rightarrow> (int \<Rightarrow> bool) \<Rightarrow> int \<Rightarrow> int list \<Rightarrow> 'r list \<Rightarrow> 'r list" where
  "replace_associations anchor target mk protected a new_ids rows =
     filter (\<lambda>r. anchor r \<noteq> a \<or> target r \<in> set new_ids \<or> protected (target r)) rows
     @ map mk (filter (\<lambda>i. i \<notin> set (map target (filter (\<lambda>r. anchor r = a) rows))) new_ids)"

text \<open>
  Modelled from the spec: \<^verbatim>\<open>GalaxyRBACAgent.set_user_group_and_role_associations\<close>. It
  returns the exception it raises, if any, and the database afterwards. The protected
  associations of a user are those with a role of type PRIVATE.
\<close>

definition set_user_group_and_role_associations ::
  "rbac_db \<Rightarrow> int \<Rightarrow> int list \<Rightarrow> int list \<Rightarrow> error option \<times> rbac_db" where
  "set_user_group_and_role_associations db user_id group_ids role_ids =
     (if \<not> (valid_ids (groups db) group_ids \<and> valid_ids (roles db) role_ids)
      then (Some RequestParameterInvalidException, db)
      else (None,
            db\<lparr>user_group_association :=
                 replace_associations fst snd (\<lambda>g. (user_id, g)) (\<lambda>g. False) user_id group_ids
                   (user_group_association db),
               user_role_association :=
                 replace_associations fst snd (\<lambda>r. (user_id, r)) (is_private db) user_id role_ids
                   (user_role_association db)\<rparr>))"

text \<open>
  Modelled from the spec: \<^verbatim>\<open>GalaxyRBACAgent.set_group_user_and_role_associations\<close>. A
  group has no protected association.
\<close>

definition set_group_user_and_role_associations ::
  "rbac_db \<Rightarrow> int \<Rightarrow> int list \<Rightarrow> int list \<Rightarrow> error option \<times> rbac_db" where
  "set_group_user_and_role_associations db group_id user_ids role_ids =
     (if \<not> (valid_ids (users db) user_ids \<and> valid_ids (roles db) role_ids)
      then (Some RequestParameterInvalidException, db)
      else (None,
            db\<lparr>user_group_association :=
                 replace_associations snd fst (\<lambda>u. (u, group_id)) (\<lambda>u. False) group_id user_ids
                   (user_group_association db),
               group_role_association :=
                 replace_associations fst snd (\<lambda>r. (group_id, r)) (\<lambda>r. False) group_id role_ids
                   (group_role_association db)\<rparr>))"

text \<open>
  Modelled from the spec: \<^verbatim>\<open>GalaxyRBACAgent.set_role_user_and_group_associations\<close>. The
  user associations of a role of type PRIVATE are protected: the test
  \<^verbatim>\<open>test_private_user_role_assoc_not_affected_by_setting_role_users\<close> expects them to
  survive \<^verbatim>\<open>user_ids=[]\<close>.
\<close>

definition set_role_user_and_group_associations ::
  "rbac_db \<Rightarrow> int \<Rightarrow> int list \<Rightarrow> int list \<Rightarrow> error option \<times> rbac_db" where
  "set_role_user_and_group_associations db role_id user_ids group_ids =
     (if \<not> (valid_ids (users db) user_ids \<and> valid_ids (groups db) group_ids)
      then (Some RequestParameterInvalidException, db)
      else (None,
            db\<lparr>user_role_association :=
                 replace_associations snd fst (\<lambda>u. (u, role_id)) (\<lambda>u. is_private db role_id)
                   role_id user_ids (user_role_association db),
               group_role_association :=
                 replace_associations snd fst (\<lambda>g. (g, role_id)) (\<lambda>g. False) role_id group_ids
                   (group_role_association db)\<rparr>))"

text \<open>
  What \<^verbatim>\<open>verify_user_associations\<close>, \<^verbatim>\<open>verify_group_associations\<close> and
  \<^verbatim>\<open>verify_role_associations\<close> of the tests read back: the targets associated with an
  anchor.
\<close>

definition user_groups :: "rbac_db \<Rightarrow> int \<Rightarrow> int list" where
  "user_groups db u = map snd (filter (\<lambda>r. fst r = u) (user_group_association db))"

definition user_roles :: "rbac_db \<Rightarrow> int \<Rightarrow> int list" where
  "user_roles db u = map snd (filter (\<lambda>r. fst r = u) (user_role_association db))"

definition group_users :: "rbac_db \<Rightarrow> int \<Rightarrow> int list" where
  "group_users db g = map fst (filter (\<lambda>r. snd r = g) (user_group_association db))"

definition group_roles :: "rbac_db \<Rightarrow> int \<Rightarrow> int list" where
  "group_roles db g = map snd (filter (\<lambda>r. fst r = g) (group_role_association db))"

definition role_users :: "rbac_db \<Rightarrow> int \<Rightarrow> int list" where
  "role_users db r = map fst (filter (\<lambda>x. snd x = r) (user_role_association db))"

definition role_groups :: "rbac_db \<Rightarrow> int \<Rightarrow> int list" where
  "role_groups db r = map fst (filter (\<lambda>x. snd x = r) (group_role_association db))"

section \<open>The vault\<close>

text \<open>
  \<^verbatim>\<open>galaxy.security.vault\<close> is not among the sources; only
  \<^verbatim>\<open>test/unit/security/test_vault.py\<close> is. The spec describes the vault as "polymorphic
  over a capability set {read_secret(path), write_secret(path, value)}, with variants
  backed by Hashicorp Vault, a locally-encrypted database table (with key-rotation
  support -- old keys retained for decrypting legacy ciphertext after rotation), and a
  Custos-federated vault. Decryption with a rotated-out key set fails distinctly from a
  missing key."
\<close>

type_synonym encryption_key = string

text \<open>
  Modelled from the spec: the encryption of \<^verbatim>\<open>galaxy.security.vault\<close>, taken
  symbolically. A token records the key it was made under and the value.
\<close>

datatype token = Token encryption_key string

definition encrypt :: "encryption_key \<Rightarrow> string \<Rightarrow> token" where
  "encrypt k v = Token k v"

text \<open>
  Modelled from the spec: the decryption of \<^verbatim>\<open>galaxy.security.vault\<close> under a set of
  keys. A token decrypts exactly when the key it was made under is in the set ("old
  keys retained for decrypting legacy ciphertext"); otherwise the error is
  \<^verbatim>\<open>InvalidToken\<close>, as \<^verbatim>\<open>test_wrong_keys\<close> expects.
\<close>

definition decrypt :: "encryption_key list \<Rightarrow> token \<Rightarrow> error + string" where
  "decrypt ks t = (case t of Token k v \<Rightarrow> if k \<in> set ks then Inr v else Inl InvalidToken)"

text \<open>
  Modelled from the spec: the three variants of \<^verbatim>\<open>Vault\<close>. The two remote backends are
  key-value stores; the database vault has a primary key, under which it encrypts, the
  keys it was rotated from, and its table of tokens by path.
\<close>

datatype vault =
    HashicorpVault "string \<rightharpoonup> string"
  | DatabaseVault encryption_key "encryption_key list" "string \<rightharpoonup> token"
  | CustosVault "string \<rightharpoonup> string"

text \<open>
  Modelled from the spec: \<^verbatim>\<open>Vault.write_secret\<close> stores the value under the path,
  replacing what was there; the database vault stores it encrypted under its primary
  key.
\<close>

definition write_secret :: "vault \<Rightarrow> string \<Rightarrow> string \<Rightarrow> vault" where
  "write_secret vlt path v =
     (case vlt of
        HashicorpVault kv \<Rightarrow> HashicorpVault (kv(path \<mapsto> v))
      | DatabaseVault k rotated tbl \<Rightarrow> DatabaseVault k rotated (tbl(path \<mapsto> encrypt k v))
      | CustosVault kv \<Rightarrow> CustosVault (kv(path \<mapsto> v)))"

text \<open>
  Modelled from the spec: \<^verbatim>\<open>Vault.read_secret\<close>. A path that holds nothing reads as
  \<^verbatim>\<open>None\<close>; the database vault decrypts under its primary key and the keys it was
  rotated from.
\<close>

definition read_secret :: "vault \<Rightarrow> string \<Rightarrow> error + string option" where
  "read_secret vlt path =
     (case vlt of
        HashicorpVault kv \<Rightarrow> Inr (kv path)
      | DatabaseVault k rotated tbl \<Rightarrow>
          (case tbl path of
             None \<Rightarrow> Inr None
           | Some t \<Rightarrow>
               (case decrypt (k # rotated) t of Inl e \<Rightarrow> Inl e | Inr v \<Rightarrow> Inr (Some v)))
      | CustosVault kv \<Rightarrow> Inr (kv path))"

text \<open>
  Modelled from the spec: building the vault again from another configuration, as the
  tests do with \<^verbatim>\<open>VaultFactory.from_app\<close>: the keys change, the stored table stays.
\<close>

definition reconfigure :: "vault \<Rightarrow> encryption_key \<Rightarrow> encryption_key list \<Rightarrow> vault" where
  "reconfigure vlt k rotated =
     (case vlt of
        DatabaseVault _ _ tbl \<Rightarrow> DatabaseVault k rotated tbl
      | _ \<Rightarrow> vlt)"

section \<open>Example data\<close>

text \<open>
  Concrete inputs on which the theorems below are exercised: a user who owns one
  visualization with one revision, an ownership test in the place of
  \<^verbatim>\<open>security_check\<close>, and simple stand-ins for \<^verbatim>\<open>sanitize_html\<close> and
  \<^verbatim>\<open>Visualization.copy\<close>.
\<close>

definition ex_owner :: galaxy_user where
  "ex_owner = \<lparr>gu_id = 1, username = ''alice''\<rparr>"

definition ex_trans :: trans where
  "ex_trans = \<lparr>user = Some ex_owner, user_is_admin = False\<rparr>"

definition ex_anonymous :: trans where
  "ex_anonymous = \<lparr>user = None, user_is_admin = False\<rparr>"

definition ex_revision :: visualization_revision where
  "ex_revision =
     \<lparr>rev_id = 1, rev_title = Some ''plot'', rev_dbkey = Some ''hg19'',
      rev_config = Some [(''x'', JInt 1)]\<rparr>"

definition ex_visualization :: visualization where
  "ex_visualization =
     \<lparr>vis_id = 7, vis_user = 1, vis_title = Some ''plot'', vis_deleted = Some False,
      vis_importable = Some True, latest_revision = Some ex_revision,
      revisions = [ex_revision]\<rparr>"

definition ex_session :: "visualization \<Rightarrow> sa_session" where
  "ex_session v =
     \<lparr>visualizations = [7 \<mapsto> v], next_visualization_id = 8, next_revision_id = 2\<rparr>"

definition ex_security_check :: security_check where
  "ex_security_check tr v check_ownership check_accessible =
     (if check_ownership \<and> map_option gu_id (user tr) \<noteq> Some (vis_user v)
      then Some ItemOwnershipException else None)"

definition ex_sanitize_html :: "string \<Rightarrow> string" where
  "ex_sanitize_html s = filter (\<lambda>c. c \<noteq> CHR ''<'' \<and> c \<noteq> CHR ''>'') s"

definition ex_copy :: "visualization \<Rightarrow> galaxy_user \<Rightarrow> string \<Rightarrow> visualization" where
  "ex_copy v u t = v\<lparr>vis_user := gu_id u, vis_title := Some t\<rparr>"

definition ex_payload :: payload_dump where
  "ex_payload =
     \<lparr>dump_title = JStr ''plot 2'', dump_dbkey = JNull, dump_deleted = JNull,
      dump_config = JNull\<rparr>"

text \<open>
  A payload that sets nothing, one whose four fields are all falsy, and a visualization
  whose latest revision has a config of two keys.
\<close>

definition ex_no_payload :: payload_dump where
  "ex_no_payload =
     \<lparr>dump_title = JNull, dump_dbkey = JNull, dump_deleted = JNull, dump_config = JNull\<rparr>"

definition ex_falsy_payload :: payload_dump where
  "ex_falsy_payload =
     \<lparr>dump_title = JStr [], dump_dbkey = JStr [], dump_deleted = JBool False,
      dump_config = JDict []\<rparr>"

definition ex_revision_ab :: visualization_revision where
  "ex_revision_ab = ex_revision\<lparr>rev_config := Some [(''a'', JInt 1), (''b'', JInt 2)]\<rparr>"

definition ex_visualization_ab :: visualization where
  "ex_visualization_ab =
     ex_visualization\<lparr>latest_revision := Some ex_revision_ab, revisions := [ex_revision_ab]\<rparr>"

text \<open>
  For the chat controller: a store of exchanges by job id with its lookup and its
  creation, an OpenAI module that always answers, and a configuration with a key.
\<close>

definition ex_chat_get :: "(int \<rightharpoonup> chat_exchange) \<Rightarrow> trans \<Rightarrow> int \<Rightarrow> chat_exchange option" where
  "ex_chat_get db tr j = db j"

definition ex_chat_create ::
  "(int \<rightharpoonup> chat_exchange) \<Rightarrow> trans \<Rightarrow> int \<Rightarrow> string \<Rightarrow> (int \<rightharpoonup> chat_exchange)" where
  "ex_chat_create db tr j answer = db(j \<mapsto> \<lparr>messages = [\<lparr>message = answer\<rparr>]\<rparr>)"

definition ex_openai :: openai_module where
  "ex_openai k model msgs = Some [''try again'']"

definition ex_config :: GalaxyAppConfiguration where
  "ex_config =
     \<lparr>openai_api_key = Some ''sk'', openai_model = ''gpt'', chat_prompts = Map.empty\<rparr>"

definition ex_chat_store :: "int \<rightharpoonup> chat_exchange" where
  "ex_chat_store = [5 \<mapsto> \<lparr>messages = [\<lparr>message = ''stored answer''\<rparr>]\<rparr>]"

text \<open>
  For the migration: a schema of the prior revision, a database on it with no rows, and
  a usage row.
\<close>

definition ex_schema :: schema where
  "ex_schema =
     \<lparr>tables = [''quota'' \<mapsto> [(Column ''id'' SqlInteger)\<lparr>col_primary_key := True\<rparr>],
                ''default_quota_association'' \<mapsto>
                  [(Column ''id'' SqlInteger)\<lparr>col_primary_key := True\<rparr>,
                   Column ''type'' (SqlString 32)]],
      indexes = {default_quota_association_type_index},
      unique_constraints = {}\<rparr>"

definition ex_database :: database where
  "ex_database = \<lparr>db_schema = ex_schema, db_rows = (\<lambda>t. [])\<rparr>"

definition ex_row :: row where
  "ex_row =
     [''id'' \<mapsto> SqlInt 1, ''user_id'' \<mapsto> SqlInt 1, ''quota_source_label'' \<mapsto> SqlStr ''s3'',
      ''disk_usage'' \<mapsto> SqlInt 0]"

definition ex_database_1 :: database where
  "ex_database_1 =
     \<lparr>db_schema = upgrade ex_schema,
      db_rows = (\<lambda>t. [])(''user_quota_source_usage'' := [ex_row])\<rparr>"

text \<open>
  For the association setters, the state that the tests of
  \<^verbatim>\<open>TestSetUserGroupAndRoleAssociations\<close> build: one user (whose email was changed after
  the private role was named), the private role 10, five more roles 11 to 15 and five
  groups 21 to 25; the user is in groups 21 and 23 and has roles 12, 14 and the private
  one.
\<close>

definition ex_rbac :: rbac_db where
  "ex_rbac =
     \<lparr>users = [1 \<mapsto> \<lparr>email = ''u1@example.orgupdated''\<rparr>],
      groups = [21 \<mapsto> ''g1'', 22 \<mapsto> ''g2'', 23 \<mapsto> ''g3'', 24 \<mapsto> ''g4'', 25 \<mapsto> ''g5''],
      roles = [10 \<mapsto> \<lparr>role_name = ''u1@example.org'', role_type = PRIVATE\<rparr>,
               11 \<mapsto> \<lparr>role_name = ''r1'', role_type = OTHER\<rparr>,
               12 \<mapsto> \<lparr>role_name = ''r2'', role_type = OTHER\<rparr>,
               13 \<mapsto> \<lparr>role_name = ''r3'', role_type = OTHER\<rparr>,
               14 \<mapsto> \<lparr>role_name = ''r4'', role_type = OTHER\<rparr>,
               15 \<mapsto> \<lparr>role_name = ''r5'', role_type = OTHER\<rparr>],
      user_group_association = [(1, 21), (1, 23)],
      user_role_association = [(1, 10), (1, 12), (1, 14)],
      group_role_association = []\<rparr>"

text \<open>
  The state of \<^verbatim>\<open>TestSetGroupUserAndRoleAssociations\<close> and
  \<^verbatim>\<open>TestSetRoleUserAndGroupAssociations\<close>: five users 1 to 5 with their private roles
  101 to 105, the roles 11 to 15 and the groups 21 to 25; group 21 has users 1 and 3 and
  roles 12 and 14, and role 11 has users 2 and 4 and groups 21 and 23.
\<close>

definition ex_rbac_five :: rbac_db where
  "ex_rbac_five =
     \<lparr>users = [1 \<mapsto> \<lparr>email = ''u1''\<rparr>, 2 \<mapsto> \<lparr>email = ''u2''\<rparr>, 3 \<mapsto> \<lparr>email = ''u3''\<rparr>,
               4 \<mapsto> \<lparr>email = ''u4''\<rparr>, 5 \<mapsto> \<lparr>email = ''u5''\<rparr>],
      groups = [21 \<mapsto> ''g1'', 22 \<mapsto> ''g2'', 23 \<mapsto> ''g3'', 24 \<mapsto> ''g4'', 25 \<mapsto> ''g5''],
      roles = [101 \<mapsto> \<lparr>role_name = ''u1'', role_type = PRIVATE\<rparr>,
               102 \<mapsto> \<lparr>role_name = ''u2'', role_type = PRIVATE\<rparr>,
               103 \<mapsto> \<lparr>role_name = ''u3'', role_type = PRIVATE\<rparr>,
               104 \<mapsto> \<lparr>role_name = ''u4'', role_type = PRIVATE\<rparr>,
               105 \<mapsto> \<lparr>role_name = ''u5'', role_type = PRIVATE\<rparr>,
               11 \<mapsto> \<lparr>role_name = ''r1'', role_type = OTHER\<rparr>,
               12 \<mapsto> \<lparr>role_name = ''r2'', role_type = OTHER\<rparr>,
               13 \<mapsto> \<lparr>role_name = ''r3'', role_type = OTHER\<rparr>,
               14 \<mapsto> \<lparr>role_name = ''r4'', role_type = OTHER\<rparr>,
               15 \<mapsto> \<lparr>role_name = ''r5'', role_type = OTHER\<rparr>],
      user_group_association = [(1, 21), (3, 21)],
      user_role_association =
        [(1, 101), (2, 102), (3, 103), (4, 104), (5, 105), (2, 11), (4, 11)],
      group_role_association = [(21, 12), (21, 14), (21, 11), (23, 11)]\<rparr>"

section \<open>Properties of the visualization service\<close>

lemma py_or_deleted: "py_or truthy_bool d (Some True) = Some True"
  by (cases d) (auto simp: py_or_def truthy_bool_def)

lemma update_error_unchanged:
  "fst (update sanitize_html json_dumps security_check tr db vid payload) = Inl e \<Longrightarrow>
   snd (update sanitize_html json_dumps security_check tr db vid payload) = db"
  by (auto simp: update_def Let_def split: sum.splits option.splits prod.splits if_splits)

lemma ex_payload_valid:
  "validate_and_parse_payload ex_sanitize_html ex_payload =
     Inr \<lparr>title = Some ''plot 2'', dbkey = None, deleted = None, config = None\<rparr>"
  by (simp add: validate_and_parse_payload_def validate_str_def validate_bool_def
      validate_dict_def ex_payload_def ex_sanitize_html_def)

lemma ex_get_owned:
  "get_visualization ex_security_check ex_trans (ex_session v) 7 True False = Inr v
     \<longleftrightarrow> vis_user v = 1"
  by (auto simp: get_visualization_def ex_security_check_def ex_trans_def ex_owner_def
      ex_session_def)

lemma ex_get_any:
  "get_visualization ex_security_check tr (ex_session v) 7 False False = Inr v"
  by (simp add: get_visualization_def ex_security_check_def ex_session_def)

lemmas py_json_dumps_defs = py_json_dumps_def encode_basestring_ascii_def escape_char_def
  repr_int_def

lemma ex_no_payload_valid:
  "validate_and_parse_payload ex_sanitize_html (ex_no_payload\<lparr>dump_config := JDict d\<rparr>) =
     Inr \<lparr>title = None, dbkey = None, deleted = None, config = Some d\<rparr>"
  by (simp add: validate_and_parse_payload_def validate_str_def validate_bool_def
      validate_dict_def ex_no_payload_def)

lemma ex_found:
  "vis_user v = 1 \<Longrightarrow>
   get_visualization ex_security_check ex_trans (ex_session v) 7 True False = Inr v"
  by (simp add: ex_get_owned)

text \<open>
  C6 (as amended). For an owned visualization and a payload that passes validation,
  \<^verbatim>\<open>update\<close> creates a revision exactly when the effective title or dbkey (the payload's
  value when truthy, the latest revision's otherwise) differs from the latest
  revision's, or the \<^verbatim>\<open>json.dumps\<close> serialisation of the effective config differs from
  that of the latest revision's config. When one differs, the new revision holds the
  effective values, is appended to the visualization's revisions, becomes its latest
  revision, and its id is returned. When none differs, the call returns \<^verbatim>\<open>None\<close> and
  the revisions and the latest revision are as before.
\<close>

theorem update_new_revision_iff_serialisation_differs:
  assumes valid: "validate_and_parse_payload sanitize_html payload = Inr p"
      and found: "get_visualization security_check tr db vid True False = Inr v"
      and latest: "latest_revision v = Some l"
  shows "(let ttl = py_or truthy_str (title p) (rev_title l);
              key = py_or truthy_str (dbkey p) (rev_dbkey l);
              cfg = py_or truthy_dict (config p) (rev_config l);
              new = \<lparr>rev_id = next_revision_id db, rev_title = ttl, rev_dbkey = key,
                     rev_config = cfg\<rparr>;
              res = update sanitize_html json_dumps security_check tr db vid payload;
              v' = visualizations (snd res) (vis_id v)
          in if ttl \<noteq> rev_title l \<or> key \<noteq> rev_dbkey l \<or>
                json_dumps cfg \<noteq> json_dumps (rev_config l)
             then fst res = Inr (Some (vid, rev_id new)) \<and>
                  map_option revisions v' = Some (revisions v @ [new]) \<and>
                  map_option latest_revision v' = Some (Some new)
             else fst res = Inr None \<and>
                  map_option revisions v' = Some (revisions v) \<and>
                  map_option latest_revision v' = Some (Some l))"
  using valid found latest
  by (simp add: update_def add_visualization_revision_def Let_def)

theorem update_new_revision_iff_serialisation_differs_witness:
  "validate_and_parse_payload ex_sanitize_html ex_payload =
     Inr \<lparr>title = Some ''plot 2'', dbkey = None, deleted = None, config = None\<rparr> \<and>
   get_visualization ex_security_check ex_trans (ex_session ex_visualization) 7 True False
     = Inr ex_visualization \<and>
   latest_revision ex_visualization = Some ex_revision \<and>
   fst (update ex_sanitize_html py_json_dumps ex_security_check ex_trans
          (ex_session ex_visualization) 7 ex_payload) = Inr (Some (7, 2)) \<and>
   map_option revisions
     (visualizations
        (snd (update ex_sanitize_html py_json_dumps ex_security_check ex_trans
                (ex_session ex_visualization) 7 ex_payload)) 7)
     = Some [ex_revision, ex_revision\<lparr>rev_id := 2, rev_title := Some ''plot 2''\<rparr>] \<and>
   fst (update ex_sanitize_html py_json_dumps ex_security_check ex_trans
          (ex_session ex_visualization) 7
          (ex_no_payload\<lparr>dump_config := JDict [(''x'', JInt 2)]\<rparr>)) = Inr (Some (7, 2)) \<and>
   map_option revisions
     (visualizations
        (snd (update ex_sanitize_html py_json_dumps ex_security_check ex_trans
                (ex_session ex_visualization) 7
                (ex_no_payload\<lparr>dump_config := JDict [(''x'', JInt 2)]\<rparr>))) 7)
     = Some [ex_revision, ex_revision\<lparr>rev_id := 2, rev_config := Some [(''x'', JInt 2)]\<rparr>] \<and>
   fst (update ex_sanitize_html py_json_dumps ex_security_check ex_trans
          (ex_session ex_visualization) 7
          (ex_no_payload\<lparr>dump_config := JDict [(''x'', JInt 1)]\<rparr>)) = Inr None \<and>
   map_option revisions
     (visualizations
        (snd (update ex_sanitize_html py_json_dumps ex_security_check ex_trans
                (ex_session ex_visualization) 7
                (ex_no_payload\<lparr>dump_config := JDict [(''x'', JInt 1)]\<rparr>))) 7)
     = Some [ex_revision]"
proof -
  have found: "get_visualization ex_security_check ex_trans (ex_session ex_visualization) 7
                 True False = Inr ex_visualization"
    by (rule ex_found) (simp add: ex_visualization_def)
  have latest: "latest_revision ex_visualization = Some ex_revision"
    by (simp add: ex_visualization_def)
  note t = update_new_revision_iff_serialisation_differs
  from t [OF ex_payload_valid found latest, where json_dumps = py_json_dumps]
  have 1: "fst (update ex_sanitize_html py_json_dumps ex_security_check ex_trans
                  (ex_session ex_visualization) 7 ex_payload) = Inr (Some (7, 2)) \<and>
           map_option revisions
             (visualizations
                (snd (update ex_sanitize_html py_json_dumps ex_security_check ex_trans
                        (ex_session ex_visualization) 7 ex_payload)) 7)
             = Some [ex_revision, ex_revision\<lparr>rev_id := 2, rev_title := Some ''plot 2''\<rparr>]"
    by (simp add: Let_def py_or_def truthy_str_def truthy_dict_def ex_revision_def
        ex_visualization_def ex_session_def)
  from t [OF ex_no_payload_valid found latest, where json_dumps = py_json_dumps]
  have 2: "fst (update ex_sanitize_html py_json_dumps ex_security_check ex_trans
                  (ex_session ex_visualization) 7
                  (ex_no_payload\<lparr>dump_config := JDict [(''x'', JInt 2)]\<rparr>)) = Inr (Some (7, 2)) \<and>
           map_option revisions
             (visualizations
                (snd (update ex_sanitize_html py_json_dumps ex_security_check ex_trans
                        (ex_session ex_visualization) 7
                        (ex_no_payload\<lparr>dump_config := JDict [(''x'', JInt 2)]\<rparr>))) 7)
             = Some [ex_revision, ex_revision\<lparr>rev_id := 2, rev_config := Some [(''x'', JInt 2)]\<rparr>]"
    by (simp add: Let_def py_or_def truthy_str_def truthy_dict_def ex_revision_def
        ex_visualization_def ex_session_def py_json_dumps_defs)
  from t [OF ex_no_payload_valid found latest, where json_dumps = py_json_dumps]
  have 3: "fst (update ex_sanitize_html py_json_dumps ex_security_check ex_trans
                  (ex_session ex_visualization) 7
                  (ex_no_payload\<lparr>dump_config := JDict [(''x'', JInt 1)]\<rparr>)) = Inr None \<and>
           map_option revisions
             (visualizations
                (snd (update ex_sanitize_html py_json_dumps ex_security_check ex_trans
                        (ex_session ex_visualization) 7
                        (ex_no_payload\<lparr>dump_config := JDict [(''x'', JInt 1)]\<rparr>))) 7)
             = Some [ex_revision]"
    by (simp add: Let_def py_or_def truthy_str_def truthy_dict_def ex_revision_def
        ex_visualization_def ex_session_def py_json_dumps_defs)
  from ex_payload_valid found latest 1 2 3 show ?thesis by blast
qed

text \<open>
  C6, counterexample to the statement that a revision is created only when the config
  differs. The latest revision's config is \<^verbatim>\<open>{"a": 1, "b": 2}\<close> and the payload's config
  is \<^verbatim>\<open>{"b": 2, "a": 1}\<close>: the same keys with the same values, equal under Python's
  \<^verbatim>\<open>==\<close>, and the payload sets no title and no dbkey. The two serialisations differ in
  the order of the keys, so \<^verbatim>\<open>update\<close> creates revision 2.
\<close>

theorem update_key_order_counterexample:
  "same_items [(''b'', JInt 2), (''a'', JInt 1)] [(''a'', JInt 1), (''b'', JInt 2)] \<and>
   map_option rev_config (latest_revision ex_visualization_ab)
     = Some (Some [(''a'', JInt 1), (''b'', JInt 2)]) \<and>
   py_json_dumps (Some [(''b'', JInt 2), (''a'', JInt 1)])
     \<noteq> py_json_dumps (Some [(''a'', JInt 1), (''b'', JInt 2)]) \<and>
   fst (update ex_sanitize_html py_json_dumps ex_security_check ex_trans
          (ex_session ex_visualization_ab) 7
          (ex_no_payload\<lparr>dump_config := JDict [(''b'', JInt 2), (''a'', JInt 1)]\<rparr>))
     = Inr (Some (7, 2))"
  by (simp add: same_items_def update_def validate_and_parse_payload_def validate_str_def
      validate_bool_def validate_dict_def ex_no_payload_def get_visualization_def
      ex_security_check_def ex_session_def ex_trans_def ex_owner_def ex_visualization_ab_def
      ex_visualization_def ex_revision_ab_def ex_revision_def py_or_def truthy_str_def
      truthy_bool_def truthy_dict_def Let_def add_visualization_revision_def
      py_json_dumps_defs insert_commute)

text \<open>
  C8 (as amended). \<^verbatim>\<open>_get_visualization\<close> raises \<^verbatim>\<open>ObjectNotFound\<close> when no
  visualization has the id. \<^verbatim>\<open>_import_visualization\<close> runs its checks in order: an
  anonymous caller gets \<^verbatim>\<open>ItemAccessibilityException\<close>; for a logged-in caller a missing
  visualization gives \<^verbatim>\<open>ObjectNotFound\<close>, one that is not importable gives
  \<^verbatim>\<open>ItemAccessibilityException\<close>, and one that is importable and deleted gives
  \<^verbatim>\<open>ItemDeletionException\<close>. Whenever the import raises, the session is unchanged: no
  copy was stored.
\<close>

theorem import_visualization_typed_errors:
  "(visualizations db vid = None \<longrightarrow>
      get_visualization sc tr db vid co ca = Inl ObjectNotFound) \<and>
   (user tr = None \<longrightarrow>
      import_visualization copy sc tr db vid = (Inl ItemAccessibilityException, db)) \<and>
   (user tr \<noteq> None \<and> visualizations db vid = None \<longrightarrow>
      import_visualization copy sc tr db vid = (Inl ObjectNotFound, db)) \<and>
   (user tr \<noteq> None \<and> get_visualization sc tr db vid False False = Inr v \<and>
    \<not> truthy truthy_bool (vis_importable v) \<longrightarrow>
      import_visualization copy sc tr db vid = (Inl ItemAccessibilityException, db)) \<and>
   (user tr \<noteq> None \<and> get_visualization sc tr db vid False False = Inr v \<and>
    truthy truthy_bool (vis_importable v) \<and> truthy truthy_bool (vis_deleted v) \<longrightarrow>
      import_visualization copy sc tr db vid = (Inl ItemDeletionException, db)) \<and>
   (fst (import_visualization copy sc tr db vid) = Inl e \<longrightarrow>
      snd (import_visualization copy sc tr db vid) = db)"
proof (intro conjI impI)
  assume "fst (import_visualization copy sc tr db vid) = Inl e"
  then show "snd (import_visualization copy sc tr db vid) = db"
    by (auto simp: import_visualization_def Let_def split: option.splits sum.splits if_splits)
qed (auto simp: get_visualization_def import_visualization_def split: option.splits)

theorem import_visualization_typed_errors_witness:
  "visualizations (ex_session ex_visualization) 9 = None \<and>
   get_visualization ex_security_check ex_trans (ex_session ex_visualization) 9 False False
     = Inl ObjectNotFound \<and>
   user ex_anonymous = None \<and>
   import_visualization ex_copy ex_security_check ex_anonymous (ex_session ex_visualization) 7
     = (Inl ItemAccessibilityException, ex_session ex_visualization) \<and>
   user ex_trans \<noteq> None \<and>
   import_visualization ex_copy ex_security_check ex_trans (ex_session ex_visualization) 9
     = (Inl ObjectNotFound, ex_session ex_visualization) \<and>
   \<not> truthy truthy_bool (vis_importable (ex_visualization\<lparr>vis_importable := Some False\<rparr>)) \<and>
   import_visualization ex_copy ex_security_check ex_trans
       (ex_session (ex_visualization\<lparr>vis_importable := Some False\<rparr>)) 7
     = (Inl ItemAccessibilityException,
        ex_session (ex_visualization\<lparr>vis_importable := Some False\<rparr>)) \<and>
   truthy truthy_bool (vis_importable (ex_visualization\<lparr>vis_deleted := Some True\<rparr>)) \<and>
   truthy truthy_bool (vis_deleted (ex_visualization\<lparr>vis_deleted := Some True\<rparr>)) \<and>
   import_visualization ex_copy ex_security_check ex_trans
       (ex_session (ex_visualization\<lparr>vis_deleted := Some True\<rparr>)) 7
     = (Inl ItemDeletionException, ex_session (ex_visualization\<lparr>vis_deleted := Some True\<rparr>)) \<and>
   snd (import_visualization ex_copy ex_security_check ex_trans
          (ex_session (ex_visualization\<lparr>vis_deleted := Some True\<rparr>)) 7)
     = ex_session (ex_visualization\<lparr>vis_deleted := Some True\<rparr>)"
proof -
  let ?ni = "ex_visualization\<lparr>vis_importable := Some False\<rparr>"
  let ?del = "ex_visualization\<lparr>vis_deleted := Some True\<rparr>"
  have none: "visualizations (ex_session ex_visualization) 9 = None"
    by (simp add: ex_session_def)
  have anon: "user ex_anonymous = None" and logged: "user ex_trans \<noteq> None"
    by (simp_all add: ex_anonymous_def ex_trans_def)
  have ni: "\<not> truthy truthy_bool (vis_importable ?ni)"
    and imp: "truthy truthy_bool (vis_importable ?del)"
    and del: "truthy truthy_bool (vis_deleted ?del)"
    by (simp_all add: truthy_def truthy_bool_def ex_visualization_def)
  note t = import_visualization_typed_errors
  from t [of "ex_session ex_visualization" 9 ex_security_check ex_trans False False]
  have 1: "get_visualization ex_security_check ex_trans (ex_session ex_visualization) 9
             False False = Inl ObjectNotFound"
    using none by blast
  from t [of _ _ _ ex_anonymous _ _ ex_copy] anon
  have 2: "import_visualization ex_copy ex_security_check ex_anonymous
             (ex_session ex_visualization) 7
           = (Inl ItemAccessibilityException, ex_session ex_visualization)"
    by blast
  from t [of "ex_session ex_visualization" 9 _ ex_trans _ _ ex_copy] none logged
  have 3: "import_visualization ex_copy ex_security_check ex_trans
             (ex_session ex_visualization) 9
           = (Inl ObjectNotFound, ex_session ex_visualization)"
    by blast
  from t [of "ex_session ?ni" 7 ex_security_check ex_trans _ _ ex_copy ?ni] logged ni
    ex_get_any [of ex_trans ?ni]
  have 4: "import_visualization ex_copy ex_security_check ex_trans (ex_session ?ni) 7
           = (Inl ItemAccessibilityException, ex_session ?ni)"
    by blast
  from t [of "ex_session ?del" 7 ex_security_check ex_trans _ _ ex_copy ?del] logged imp del
    ex_get_any [of ex_trans ?del]
  have 5: "import_visualization ex_copy ex_security_check ex_trans (ex_session ?del) 7
           = (Inl ItemDeletionException, ex_session ?del)"
    by blast
  from t [of "ex_session ?del" 7 ex_security_check ex_trans _ _ ex_copy _ ItemDeletionException] 5
  have 6: "snd (import_visualization ex_copy ex_security_check ex_trans (ex_session ?del) 7)
           = ex_session ?del"
    by simp
  from none 1 anon 2 logged 3 ni 4 imp del 5 6 show ?thesis by blast
qed

text \<open>
  C8, counterexample to the statement that a deleted visualization always makes the
  import raise \<^verbatim>\<open>ItemDeletionException\<close>: for a logged-in caller and a deleted
  visualization that is not importable, the importable check comes first and raises
  \<^verbatim>\<open>ItemAccessibilityException\<close>.
\<close>

theorem import_deleted_not_importable_counterexample:
  "get_visualization ex_security_check ex_trans
     (ex_session (ex_visualization\<lparr>vis_deleted := Some True, vis_importable := Some False\<rparr>))
     7 False False
     = Inr (ex_visualization\<lparr>vis_deleted := Some True, vis_importable := Some False\<rparr>) \<and>
   vis_deleted (ex_visualization\<lparr>vis_deleted := Some True, vis_importable := Some False\<rparr>)
     = Some True \<and>
   fst (import_visualization ex_copy ex_security_check ex_trans
          (ex_session (ex_visualization\<lparr>vis_deleted := Some True, vis_importable := Some False\<rparr>))
          7)
     = Inl ItemAccessibilityException \<and>
   fst (import_visualization ex_copy ex_security_check ex_trans
          (ex_session (ex_visualization\<lparr>vis_deleted := Some True, vis_importable := Some False\<rparr>))
          7)
     \<noteq> Inl ItemDeletionException"
  by (simp add: import_visualization_def get_visualization_def ex_security_check_def
      ex_session_def ex_trans_def ex_owner_def ex_visualization_def truthy_def truthy_bool_def)

lemma validated_fields:
  assumes "validate_and_parse_payload sanitize_html payload = Inr p"
  shows "validate_str sanitize_html (dump_title payload) = Inr (title p)"
    and "validate_str sanitize_html (dump_dbkey payload) = Inr (dbkey p)"
    and "validate_bool (dump_deleted payload) = Inr (deleted p)"
    and "validate_dict (dump_config payload) = Inr (config p)"
  using assms by (auto simp: validate_and_parse_payload_def split: sum.splits)

lemma falsy_fields:
  "validate_str sanitize_html x = Inr t \<Longrightarrow> sanitize_html [] = [] \<Longrightarrow> x = JNull \<or> x = JStr [] \<Longrightarrow>
     py_or truthy_str t c = c"
  "validate_bool y = Inr d \<Longrightarrow> y = JNull \<or> y = JBool False \<Longrightarrow> py_or truthy_bool d e = e"
  "validate_dict z = Inr g \<Longrightarrow> z = JNull \<or> z = JDict [] \<Longrightarrow> py_or truthy_dict g h = h"
  by (auto simp: validate_str_def validate_bool_def validate_dict_def py_or_def truthy_str_def
      truthy_bool_def truthy_dict_def)

text \<open>
  What a successful call leaves behind, in terms of the effective values: the stored
  visualization has the effective title and deleted flag, and its latest revision has
  the effective title, dbkey and config whenever one was created.
\<close>

lemma update_effective:
  assumes valid: "validate_and_parse_payload sanitize_html payload = Inr p"
      and found: "get_visualization security_check tr db vid True False = Inr v"
      and latest: "latest_revision v = Some l"
  shows "\<exists>v'. visualizations (snd (update sanitize_html json_dumps security_check tr db vid payload))
                 (vis_id v) = Some v' \<and>
              vis_title v' = py_or truthy_str (title p) (rev_title l) \<and>
              vis_deleted v' = py_or truthy_bool (deleted p) (vis_deleted v) \<and>
              (latest_revision v' = Some l \<and> revisions v' = revisions v \<or>
               (\<exists>n. latest_revision v' = Some n \<and>
                    rev_title n = py_or truthy_str (title p) (rev_title l) \<and>
                    rev_dbkey n = py_or truthy_str (dbkey p) (rev_dbkey l) \<and>
                    rev_config n = py_or truthy_dict (config p) (rev_config l)))"
  using valid found latest
  by (simp add: update_def add_visualization_revision_def Let_def)

text \<open>
  C9 (as amended). \<^verbatim>\<open>update\<close> reads the payload with \<^verbatim>\<open>or\<close>, so a falsy field acts as
  an absent one: an empty title or dbkey (given that \<^verbatim>\<open>sanitize_html\<close> keeps the empty
  string empty), \<^verbatim>\<open>deleted = False\<close> and an empty config give the same result and the
  same session as a payload without that field. In a session whose visualizations are
  stored under their own ids, a visualization whose \<^verbatim>\<open>deleted\<close> flag is true still has it
  true after any call of \<^verbatim>\<open>update\<close>, whatever the id, the payload and the outcome. After
  a successful call with a falsy or absent field, the value the field falls back to is
  the one in place: with no truthy title the latest revision, created or not, has the
  title of the latest revision before the call, and \<^verbatim>\<open>Visualization.title\<close> is set to
  that title (so it keeps its value when the two were equal); likewise the dbkey and
  the config of the latest revision, and the \<^verbatim>\<open>deleted\<close> flag; and with no truthy title,
  dbkey and config no revision is created.
\<close>

theorem update_falsy_fields_fall_back:
  "(sanitize_html [] = [] \<longrightarrow>
      update sanitize_html json_dumps security_check tr db vid (payload\<lparr>dump_title := JStr []\<rparr>) = update sanitize_html json_dumps security_check tr db vid (payload\<lparr>dump_title := JNull\<rparr>) \<and>
      update sanitize_html json_dumps security_check tr db vid (payload\<lparr>dump_dbkey := JStr []\<rparr>) = update sanitize_html json_dumps security_check tr db vid (payload\<lparr>dump_dbkey := JNull\<rparr>)) \<and>
   update sanitize_html json_dumps security_check tr db vid (payload\<lparr>dump_deleted := JBool False\<rparr>) = update sanitize_html json_dumps security_check tr db vid (payload\<lparr>dump_deleted := JNull\<rparr>) \<and>
   update sanitize_html json_dumps security_check tr db vid (payload\<lparr>dump_config := JDict []\<rparr>) = update sanitize_html json_dumps security_check tr db vid (payload\<lparr>dump_config := JNull\<rparr>) \<and>
   ((\<forall>i w. visualizations db i = Some w \<longrightarrow> vis_id w = i) \<and>
    visualizations db k = Some v0 \<and> vis_deleted v0 = Some True \<longrightarrow>
      map_option vis_deleted (visualizations (snd (update sanitize_html json_dumps security_check tr db vid payload)) k) = Some (Some True)) \<and>
   (sanitize_html [] = [] \<and>
    validate_and_parse_payload sanitize_html payload = Inr p \<and>
    get_visualization security_check tr db vid True False = Inr v \<and>
    latest_revision v = Some l \<longrightarrow>
      (let v' = visualizations (snd (update sanitize_html json_dumps security_check tr db vid payload)) (vis_id v);
           l' = map_option latest_revision v';
           no_title = (dump_title payload = JNull \<or> dump_title payload = JStr []);
           no_dbkey = (dump_dbkey payload = JNull \<or> dump_dbkey payload = JStr []);
           no_config = (dump_config payload = JNull \<or> dump_config payload = JDict []);
           no_deleted = (dump_deleted payload = JNull \<or> dump_deleted payload = JBool False)
       in (no_title \<longrightarrow>
             map_option vis_title v' = Some (rev_title l) \<and>
             map_option (map_option rev_title) l' = Some (Some (rev_title l))) \<and>
          (no_title \<and> vis_title v = rev_title l \<longrightarrow>
             map_option vis_title v' = Some (vis_title v)) \<and>
          (no_dbkey \<longrightarrow> map_option (map_option rev_dbkey) l' = Some (Some (rev_dbkey l))) \<and>
          (no_config \<longrightarrow> map_option (map_option rev_config) l' = Some (Some (rev_config l))) \<and>
          (no_deleted \<longrightarrow> map_option vis_deleted v' = Some (vis_deleted v)) \<and>
          (no_title \<and> no_dbkey \<and> no_config \<longrightarrow>
             fst (update sanitize_html json_dumps security_check tr db vid payload) = Inr None \<and>
             map_option revisions v' = Some (revisions v) \<and>
             l' = Some (Some l))))"
proof (intro conjI impI)
  let ?res = "update sanitize_html json_dumps security_check tr db vid payload"
  assume a: "(\<forall>i w. visualizations db i = Some w \<longrightarrow> vis_id w = i) \<and>
             visualizations db k = Some v0 \<and> vis_deleted v0 = Some True"
  then have wf: "\<forall>i w. visualizations db i = Some w \<longrightarrow> vis_id w = i"
    and stored: "visualizations db k = Some v0" and del: "vis_deleted v0 = Some True"
    by blast+
  show "map_option vis_deleted (visualizations (snd ?res) k) = Some (Some True)"
  proof (cases "fst ?res")
    case (Inl e)
    then have "snd ?res = db" by (rule update_error_unchanged)
    with stored del show ?thesis by simp
  next
    case (Inr r)
    then obtain p v l where p: "validate_and_parse_payload sanitize_html payload = Inr p"
      and v: "get_visualization security_check tr db vid True False = Inr v"
      and l: "latest_revision v = Some l"
      by (auto simp: update_def split: sum.splits option.splits)
    from v have at_vid: "visualizations db vid = Some v"
      by (auto simp: get_visualization_def split: option.splits)
    with wf have vid: "vis_id v = vid" by blast
    show ?thesis
    proof (cases "k = vid")
      case True
      with stored at_vid have "v0 = v" by simp
      with del p v l vid True show ?thesis
        by (simp add: update_def add_visualization_revision_def Let_def py_or_deleted)
    next
      case False
      with stored del p v l vid show ?thesis
        by (simp add: update_def add_visualization_revision_def Let_def)
    qed
  qed
next
  assume a: "sanitize_html [] = [] \<and>
             validate_and_parse_payload sanitize_html payload = Inr p \<and>
             get_visualization security_check tr db vid True False = Inr v \<and>
             latest_revision v = Some l"
  then have san: "sanitize_html [] = []"
    and valid: "validate_and_parse_payload sanitize_html payload = Inr p"
    and found: "get_visualization security_check tr db vid True False = Inr v"
    and latest: "latest_revision v = Some l"
    by blast+
  note f = validated_fields [OF valid]
  have t: "py_or truthy_str (title p) c = c"
    if "dump_title payload = JNull \<or> dump_title payload = JStr []" for c
    using falsy_fields(1) [OF f(1) san that] .
  have k: "py_or truthy_str (dbkey p) c = c"
    if "dump_dbkey payload = JNull \<or> dump_dbkey payload = JStr []" for c
    using falsy_fields(1) [OF f(2) san that] .
  have d: "py_or truthy_bool (deleted p) c = c"
    if "dump_deleted payload = JNull \<or> dump_deleted payload = JBool False" for c
    using falsy_fields(2) [OF f(3) that] .
  have g: "py_or truthy_dict (config p) c = c"
    if "dump_config payload = JNull \<or> dump_config payload = JDict []" for c
    using falsy_fields(3) [OF f(4) that] .
  from update_effective [OF valid found latest, where json_dumps = json_dumps]
  obtain v' where v': "visualizations (snd (update sanitize_html json_dumps security_check tr db vid payload)) (vis_id v) = Some v'"
    and vt: "vis_title v' = py_or truthy_str (title p) (rev_title l)"
    and vd: "vis_deleted v' = py_or truthy_bool (deleted p) (vis_deleted v)"
    and lr: "latest_revision v' = Some l \<and> revisions v' = revisions v \<or>
             (\<exists>n. latest_revision v' = Some n \<and>
                  rev_title n = py_or truthy_str (title p) (rev_title l) \<and>
                  rev_dbkey n = py_or truthy_str (dbkey p) (rev_dbkey l) \<and>
                  rev_config n = py_or truthy_dict (config p) (rev_config l))"
    by blast
  have none: "fst (update sanitize_html json_dumps security_check tr db vid payload) = Inr None \<and> revisions v' = revisions v \<and>
              latest_revision v' = Some l"
    if "dump_title payload = JNull \<or> dump_title payload = JStr []"
       "dump_dbkey payload = JNull \<or> dump_dbkey payload = JStr []"
       "dump_config payload = JNull \<or> dump_config payload = JDict []"
    using v' valid found latest t [OF that(1)] k [OF that(2)] g [OF that(3)]
    by (auto simp: update_def Let_def)
  show "let v' = visualizations (snd (update sanitize_html json_dumps security_check tr db vid payload)) (vis_id v);
            l' = map_option latest_revision v';
            no_title = (dump_title payload = JNull \<or> dump_title payload = JStr []);
            no_dbkey = (dump_dbkey payload = JNull \<or> dump_dbkey payload = JStr []);
            no_config = (dump_config payload = JNull \<or> dump_config payload = JDict []);
            no_deleted = (dump_deleted payload = JNull \<or> dump_deleted payload = JBool False)
        in (no_title \<longrightarrow>
              map_option vis_title v' = Some (rev_title l) \<and>
              map_option (map_option rev_title) l' = Some (Some (rev_title l))) \<and>
           (no_title \<and> vis_title v = rev_title l \<longrightarrow>
              map_option vis_title v' = Some (vis_title v)) \<and>
           (no_dbkey \<longrightarrow> map_option (map_option rev_dbkey) l' = Some (Some (rev_dbkey l))) \<and>
           (no_config \<longrightarrow> map_option (map_option rev_config) l' = Some (Some (rev_config l))) \<and>
           (no_deleted \<longrightarrow> map_option vis_deleted v' = Some (vis_deleted v)) \<and>
           (no_title \<and> no_dbkey \<and> no_config \<longrightarrow>
              fst (update sanitize_html json_dumps security_check tr db vid payload) = Inr None \<and>
              map_option revisions v' = Some (revisions v) \<and>
              l' = Some (Some l))"
    unfolding Let_def
    using v' vt vd lr t k d g none by auto
qed (auto simp: update_def validate_and_parse_payload_def validate_str_def validate_bool_def
       validate_dict_def py_or_def truthy_str_def truthy_bool_def truthy_dict_def Let_def
       split: sum.splits option.splits)

theorem update_falsy_fields_fall_back_witness:
  "ex_sanitize_html [] = [] \<and>
   validate_and_parse_payload ex_sanitize_html ex_falsy_payload
     = Inr \<lparr>title = Some [], dbkey = Some [], deleted = Some False, config = Some []\<rparr> \<and>
   get_visualization ex_security_check ex_trans
     (ex_session (ex_visualization\<lparr>vis_deleted := Some True\<rparr>)) 7 True False
     = Inr (ex_visualization\<lparr>vis_deleted := Some True\<rparr>) \<and>
   latest_revision (ex_visualization\<lparr>vis_deleted := Some True\<rparr>) = Some ex_revision \<and>
   vis_title (ex_visualization\<lparr>vis_deleted := Some True\<rparr>) = rev_title ex_revision \<and>
   (update ex_sanitize_html py_json_dumps ex_security_check ex_trans
          (ex_session (ex_visualization\<lparr>vis_deleted := Some True\<rparr>)) 7
          (ex_falsy_payload\<lparr>dump_title := JStr []\<rparr>))
     = (update ex_sanitize_html py_json_dumps ex_security_check ex_trans
          (ex_session (ex_visualization\<lparr>vis_deleted := Some True\<rparr>)) 7
          (ex_falsy_payload\<lparr>dump_title := JNull\<rparr>)) \<and>
   (update ex_sanitize_html py_json_dumps ex_security_check ex_trans
          (ex_session (ex_visualization\<lparr>vis_deleted := Some True\<rparr>)) 7
          (ex_falsy_payload\<lparr>dump_dbkey := JStr []\<rparr>))
     = (update ex_sanitize_html py_json_dumps ex_security_check ex_trans
          (ex_session (ex_visualization\<lparr>vis_deleted := Some True\<rparr>)) 7
          (ex_falsy_payload\<lparr>dump_dbkey := JNull\<rparr>)) \<and>
   fst ((update ex_sanitize_html py_json_dumps ex_security_check ex_trans
          (ex_session (ex_visualization\<lparr>vis_deleted := Some True\<rparr>)) 7 ex_falsy_payload)) = Inr None \<and>
   map_option vis_title (visualizations (snd ((update ex_sanitize_html py_json_dumps ex_security_check ex_trans
          (ex_session (ex_visualization\<lparr>vis_deleted := Some True\<rparr>)) 7 ex_falsy_payload))) 7)
     = Some (Some ''plot'') \<and>
   map_option vis_deleted (visualizations (snd ((update ex_sanitize_html py_json_dumps ex_security_check ex_trans
          (ex_session (ex_visualization\<lparr>vis_deleted := Some True\<rparr>)) 7 ex_falsy_payload))) 7)
     = Some (Some True) \<and>
   map_option revisions (visualizations (snd ((update ex_sanitize_html py_json_dumps ex_security_check ex_trans
          (ex_session (ex_visualization\<lparr>vis_deleted := Some True\<rparr>)) 7 ex_falsy_payload))) 7)
     = Some [ex_revision] \<and>
   map_option latest_revision (visualizations (snd ((update ex_sanitize_html py_json_dumps ex_security_check ex_trans
          (ex_session (ex_visualization\<lparr>vis_deleted := Some True\<rparr>)) 7 ex_falsy_payload))) 7)
     = Some (Some ex_revision) \<and>
   map_option (map_option rev_dbkey)
     (map_option latest_revision (visualizations (snd ((update ex_sanitize_html py_json_dumps ex_security_check ex_trans
          (ex_session (ex_visualization\<lparr>vis_deleted := Some True\<rparr>)) 7 ex_falsy_payload))) 7))
     = Some (Some (Some ''hg19'')) \<and>
   map_option (map_option rev_config)
     (map_option latest_revision (visualizations (snd ((update ex_sanitize_html py_json_dumps ex_security_check ex_trans
          (ex_session (ex_visualization\<lparr>vis_deleted := Some True\<rparr>)) 7 ex_falsy_payload))) 7))
     = Some (Some (Some [(''x'', JInt 1)]))"
proof -
  let ?v = "ex_visualization\<lparr>vis_deleted := Some True\<rparr>"
  let ?p = "\<lparr>title = Some [], dbkey = Some [], deleted = Some False, config = Some []\<rparr>"
  have san: "ex_sanitize_html [] = []" by (simp add: ex_sanitize_html_def)
  have wf: "\<forall>i w. visualizations (ex_session ?v) i = Some w \<longrightarrow> vis_id w = i"
    by (simp add: ex_session_def ex_visualization_def)
  have stored: "visualizations (ex_session ?v) 7 = Some ?v"
    by (simp add: ex_session_def)
  have del: "vis_deleted ?v = Some True" by simp
  have valid: "validate_and_parse_payload ex_sanitize_html ex_falsy_payload = Inr ?p"
    by (simp add: validate_and_parse_payload_def validate_str_def validate_bool_def
        validate_dict_def ex_falsy_payload_def ex_sanitize_html_def)
  have found: "get_visualization ex_security_check ex_trans (ex_session ?v) 7 True False = Inr ?v"
    by (rule ex_found) (simp add: ex_visualization_def)
  have latest: "latest_revision ?v = Some ex_revision" by (simp add: ex_visualization_def)
  have sync: "vis_title ?v = rev_title ex_revision"
    by (simp add: ex_visualization_def ex_revision_def)
  have falsy: "dump_title ex_falsy_payload = JStr []" "dump_dbkey ex_falsy_payload = JStr []"
    "dump_deleted ex_falsy_payload = JBool False" "dump_config ex_falsy_payload = JDict []"
    by (simp_all add: ex_falsy_payload_def)
  have vals: "vis_id ?v = 7" "revisions ?v = [ex_revision]" "rev_title ex_revision = Some ''plot''"
    "rev_dbkey ex_revision = Some ''hg19''" "rev_config ex_revision = Some [(''x'', JInt 1)]"
    by (simp_all add: ex_visualization_def ex_revision_def)
  note t = update_falsy_fields_fall_back [where sanitize_html = ex_sanitize_html
      and json_dumps = py_json_dumps and security_check = ex_security_check and tr = ex_trans
      and db = "ex_session ?v" and vid = 7 and payload = ex_falsy_payload and k = 7
      and ?v0.0 = ?v and p = ?p and v = ?v and l = ex_revision, unfolded Let_def]
  from t san wf stored del valid found latest sync falsy vals show ?thesis
    by simp
qed

text \<open>
  C9, counterexample to the statement that an empty title in the payload cannot
  overwrite the existing value: for a visualization titled \<^verbatim>\<open>A\<close> whose latest revision
  is titled \<^verbatim>\<open>plot\<close>, an update whose only field is an empty title succeeds, creates no
  revision, and leaves the visualization titled \<^verbatim>\<open>plot\<close>.
\<close>

theorem update_empty_title_overwrites_counterexample:
  "vis_title (ex_visualization\<lparr>vis_title := Some ''A''\<rparr>) = Some ''A'' \<and>
   map_option rev_title (latest_revision (ex_visualization\<lparr>vis_title := Some ''A''\<rparr>))
     = Some (Some ''plot'') \<and>
   dump_title (ex_no_payload\<lparr>dump_title := JStr []\<rparr>) = JStr [] \<and>
   fst (update ex_sanitize_html py_json_dumps ex_security_check ex_trans
          (ex_session (ex_visualization\<lparr>vis_title := Some ''A''\<rparr>)) 7
          (ex_no_payload\<lparr>dump_title := JStr []\<rparr>)) = Inr None \<and>
   map_option vis_title (visualizations (snd (update ex_sanitize_html py_json_dumps ex_security_check ex_trans
          (ex_session (ex_visualization\<lparr>vis_title := Some ''A''\<rparr>)) 7
          (ex_no_payload\<lparr>dump_title := JStr []\<rparr>))) 7) = Some (Some ''plot'') \<and>
   map_option vis_title (visualizations (snd (update ex_sanitize_html py_json_dumps ex_security_check ex_trans
          (ex_session (ex_visualization\<lparr>vis_title := Some ''A''\<rparr>)) 7
          (ex_no_payload\<lparr>dump_title := JStr []\<rparr>))) 7) \<noteq> Some (Some ''A'')"
  by (simp add: update_def validate_and_parse_payload_def validate_str_def validate_bool_def
      validate_dict_def ex_no_payload_def get_visualization_def ex_security_check_def
      ex_sanitize_html_def ex_session_def ex_trans_def ex_owner_def ex_visualization_def
      ex_revision_def py_or_def truthy_str_def truthy_bool_def truthy_dict_def Let_def
      py_json_dumps_defs)

section \<open>Properties of the chat controller\<close>

text \<open>
  C10. If \<^verbatim>\<open>job_id\<close> is set and the manager holds an exchange for it with a first
  message, \<^verbatim>\<open>query\<close> returns that message and does nothing else: no configuration
  check, no call to OpenAI, no creation, the store unchanged. If \<^verbatim>\<open>job_id\<close> is not set
  (\<^verbatim>\<open>None\<close> or zero) or the manager holds no exchange for it, \<^verbatim>\<open>query\<close> checks the
  configuration: without the module or without a key it raises
  \<^verbatim>\<open>ConfigurationError\<close> before any call; with both it calls OpenAI with the built
  messages, returns the first choice, and stores it exactly when \<^verbatim>\<open>job_id\<close> is set; a
  call that raises gives \<^verbatim>\<open>ConfigurationError\<close> and stores nothing. The configuration
  check happens only when \<^verbatim>\<open>job_id\<close> is not set or no exchange is stored for it.
\<close>

theorem query_stored_message_or_openai:
  "(job_id = Some j \<and> j \<noteq> 0 \<and> chat_get db tr j = Some r \<and> messages r = m # ms \<longrightarrow>
      query openai cfg chat_get chat_create tr db job_id q = (Inr (message m), [], db)) \<and>
   (job_id = None \<or> job_id = Some 0 \<or> (job_id = Some j \<and> chat_get db tr j = None) \<longrightarrow>
      (openai = None \<or> openai_api_key cfg = None \<longrightarrow>
         query openai cfg chat_get chat_create tr db job_id q
           = (Inl ConfigurationError, [EnsureOpenAIConfigured], db)) \<and>
      (openai = Some api \<and> openai_api_key cfg = Some k \<and>
       api k (openai_model cfg) (build_messages cfg q tr) = None \<longrightarrow>
         query openai cfg chat_get chat_create tr db job_id q
           = (Inl ConfigurationError,
              [EnsureOpenAIConfigured, CallOpenAI (build_messages cfg q tr)], db)) \<and>
      (openai = Some api \<and> openai_api_key cfg = Some k \<and>
       api k (openai_model cfg) (build_messages cfg q tr) = Some (answer # rest) \<longrightarrow>
         query openai cfg chat_get chat_create tr db job_id q
           = (Inr answer,
              [EnsureOpenAIConfigured, CallOpenAI (build_messages cfg q tr)]
                @ (if job_id = None \<or> job_id = Some 0 then [] else [ChatCreate j answer]),
              if job_id = None \<or> job_id = Some 0 then db else chat_create db tr j answer))) \<and>
   (EnsureOpenAIConfigured \<in> set (fst (snd (query openai cfg chat_get chat_create tr db job_id q)))
      \<longrightarrow> job_id = None \<or> job_id = Some 0 \<or>
          (\<exists>i. job_id = Some i \<and> chat_get db tr i = None))"
proof (intro conjI impI)
  assume "EnsureOpenAIConfigured
            \<in> set (fst (snd (query openai cfg chat_get chat_create tr db job_id q)))"
  then show "job_id = None \<or> job_id = Some 0 \<or> (\<exists>i. job_id = Some i \<and> chat_get db tr i = None)"
    by (auto simp: query_def existing_message_def split: option.splits if_splits list.splits)
qed (auto simp: query_def existing_message_def ensure_openai_configured_def call_openai_def
       Let_def split: option.splits)

theorem query_stored_message_or_openai_witness:
  "ex_chat_get ex_chat_store ex_trans 5 = Some \<lparr>messages = [\<lparr>message = ''stored answer''\<rparr>]\<rparr> \<and>
   query (Some ex_openai) ex_config ex_chat_get ex_chat_create ex_trans ex_chat_store (Some 5)
       ''why did it fail''
     = (Inr ''stored answer'', [], ex_chat_store) \<and>
   ex_chat_get ex_chat_store ex_trans 6 = None \<and>
   query None ex_config ex_chat_get ex_chat_create ex_trans ex_chat_store (Some 6)
       ''why did it fail''
     = (Inl ConfigurationError, [EnsureOpenAIConfigured], ex_chat_store) \<and>
   ex_openai ''sk'' ''gpt'' (build_messages ex_config ''why did it fail'' ex_trans)
     = Some [''try again''] \<and>
   query (Some ex_openai) ex_config ex_chat_get ex_chat_create ex_trans ex_chat_store (Some 6)
       ''why did it fail''
     = (Inr ''try again'',
        [EnsureOpenAIConfigured, CallOpenAI (build_messages ex_config ''why did it fail'' ex_trans),
         ChatCreate 6 ''try again''],
        ex_chat_create ex_chat_store ex_trans 6 ''try again'')"
proof -
  have stored: "ex_chat_get ex_chat_store ex_trans 5
                  = Some \<lparr>messages = [\<lparr>message = ''stored answer''\<rparr>]\<rparr>"
    and none: "ex_chat_get ex_chat_store ex_trans 6 = None"
    by (simp_all add: ex_chat_get_def ex_chat_store_def)
  have key: "openai_api_key ex_config = Some ''sk''" and model: "openai_model ex_config = ''gpt''"
    by (simp_all add: ex_config_def)
  have ans: "ex_openai ''sk'' ''gpt'' (build_messages ex_config ''why did it fail'' ex_trans)
               = Some [''try again'']"
    by (simp add: ex_openai_def)
  note t = query_stored_message_or_openai
  from t [of "Some 5" 5 ex_chat_get ex_chat_store ex_trans
        "\<lparr>messages = [\<lparr>message = ''stored answer''\<rparr>]\<rparr>" "\<lparr>message = ''stored answer''\<rparr>" "[]"
        "Some ex_openai" ex_config ex_chat_create "''why did it fail''"] stored
  have 1: "query (Some ex_openai) ex_config ex_chat_get ex_chat_create ex_trans ex_chat_store
             (Some 5) ''why did it fail'' = (Inr ''stored answer'', [], ex_chat_store)"
    by simp
  from t [of "Some 6" 6 ex_chat_get ex_chat_store ex_trans _ _ _ None ex_config ex_chat_create
        "''why did it fail''"] none
  have 2: "query None ex_config ex_chat_get ex_chat_create ex_trans ex_chat_store (Some 6)
             ''why did it fail'' = (Inl ConfigurationError, [EnsureOpenAIConfigured], ex_chat_store)"
    by simp
  from t [of "Some 6" 6 ex_chat_get ex_chat_store ex_trans _ _ _ "Some ex_openai" ex_config
        ex_chat_create "''why did it fail''" ex_openai "''sk''" "''try again''" "[]"]
    none key model ans
  have 3: "query (Some ex_openai) ex_config ex_chat_get ex_chat_create ex_trans ex_chat_store
             (Some 6) ''why did it fail''
           = (Inr ''try again'',
              [EnsureOpenAIConfigured,
               CallOpenAI (build_messages ex_config ''why did it fail'' ex_trans),
               ChatCreate 6 ''try again''],
              ex_chat_create ex_chat_store ex_trans 6 ''try again'')"
    by simp
  from stored 1 none 2 ans 3 show ?thesis by blast
qed

section \<open>Properties of the quota-source-labels migration\<close>

text \<open>What \<^verbatim>\<open>upgrade\<close> and \<^verbatim>\<open>downgrade\<close> do to each part of a schema.\<close>

lemmas helper_defs = add_column_def create_table_def add_unique_constraint_def
      drop_index_def create_index_def drop_unique_constraint_def drop_table_def drop_column_def

lemma tables_upgrade:
  "tables (upgrade s) =
     (case tables s ''quota'' of
        None \<Rightarrow> tables s
      | Some cols \<Rightarrow> (tables s)(''quota'' \<mapsto> cols @ [Column ''quota_source_label'' (SqlString 32)]))
     (''user_quota_source_usage'' \<mapsto> user_quota_source_usage_columns)"
  by (simp add: upgrade_def Let_def helper_defs split: option.splits)

lemma indexes_upgrade:
  "indexes (upgrade s) =
     insert \<lparr>ix_name = ''ix_quota_quota_source_label'', ix_table = ''quota'',
             ix_columns = [''quota_source_label''], ix_unique = False\<rparr>
       {i \<in> indexes s. \<not> (ix_name i = ''ix_default_quota_association_type'' \<and>
                             ix_table i = ''default_quota_association'')}"
  by (simp add: upgrade_def Let_def helper_defs split: option.splits)

lemma unique_constraints_upgrade:
  "unique_constraints (upgrade s) = insert uqsu_unique_label_per_user (unique_constraints s)"
  by (simp add: upgrade_def Let_def helper_defs uqsu_unique_label_per_user_def split: option.splits)

lemma tables_downgrade:
  "tables (downgrade s) =
     (case tables s ''quota'' of
        None \<Rightarrow> (tables s)(''user_quota_source_usage'' := None)
      | Some cols \<Rightarrow>
          (tables s)(''user_quota_source_usage'' := None,
                     ''quota'' \<mapsto> filter (\<lambda>c. col_name c \<noteq> ''quota_source_label'') cols))"
  by (simp add: downgrade_def Let_def helper_defs split: option.splits)

lemma indexes_downgrade:
  "indexes (downgrade s) =
     {i \<in> insert default_quota_association_type_index
              {i \<in> indexes s. \<not> (ix_name i = ''ix_quota_quota_source_label'' \<and> ix_table i = ''quota'')}.
        ix_table i \<noteq> ''user_quota_source_usage''}"
  by (simp add: downgrade_def Let_def helper_defs default_quota_association_type_index_def
      split: option.splits)

lemma unique_constraints_downgrade:
  "unique_constraints (downgrade s) =
     {u \<in> unique_constraints s.
        \<not> (uc_name u = ''uqsu_unique_label_per_user'' \<and> uc_table u = ''user_quota_source_usage'') \<and>
        uc_table u \<noteq> ''user_quota_source_usage''}"
  by (auto simp add: downgrade_def Let_def helper_defs split: option.splits)


lemma tables_round_trip:
  assumes "prior_schema s"
  shows "tables (downgrade (upgrade s)) = tables s"
proof (cases "tables s ''quota''")
  case None
  from assms have "tables s ''user_quota_source_usage'' = None" by (simp add: prior_schema_def)
  with None show ?thesis
    by (auto simp: tables_downgrade tables_upgrade fun_eq_iff)
next
  case (Some cols)
  from assms have u: "tables s ''user_quota_source_usage'' = None" by (simp add: prior_schema_def)
  from assms Some have "list_all (\<lambda>c. col_name c \<noteq> ''quota_source_label'') cols"
    by (simp add: prior_schema_def)
  then have f: "filter (\<lambda>c. col_name c \<noteq> ''quota_source_label'') cols = cols"
    by (simp add: list_all_iff)
  from Some u f show ?thesis
    by (auto simp: tables_downgrade tables_upgrade fun_eq_iff Column_def)
qed

lemma indexes_round_trip:
  assumes "prior_schema s"
  shows "indexes (downgrade (upgrade s)) = indexes s"
proof (rule set_eqI)
  fix i
  from assms have a: "\<forall>i \<in> indexes s. ix_table i \<noteq> ''user_quota_source_usage''"
    and b: "\<forall>i \<in> indexes s. \<not> (ix_name i = ''ix_quota_quota_source_label'' \<and> ix_table i = ''quota'')"
    and c: "default_quota_association_type_index \<in> indexes s"
    and d: "\<forall>i \<in> indexes s. ix_name i = ''ix_default_quota_association_type'' \<and>
             ix_table i = ''default_quota_association'' \<longrightarrow> i = default_quota_association_type_index"
    by (simp_all add: prior_schema_def)
  have e: "ix_table default_quota_association_type_index \<noteq> ''user_quota_source_usage''"
    by (simp add: default_quota_association_type_index_def)
  show "i \<in> indexes (downgrade (upgrade s)) \<longleftrightarrow> i \<in> indexes s"
    using a b c d e by (auto simp: indexes_downgrade indexes_upgrade)
qed

lemma unique_constraints_round_trip:
  assumes "prior_schema s"
  shows "unique_constraints (downgrade (upgrade s)) = unique_constraints s"
proof -
  from assms have "\<forall>u \<in> unique_constraints s. uc_table u \<noteq> ''user_quota_source_usage''"
    by (simp add: prior_schema_def)
  then show ?thesis
    by (auto simp: unique_constraints_downgrade unique_constraints_upgrade
        uqsu_unique_label_per_user_def)
qed

lemma downgrade_upgrade:
  assumes "prior_schema s"
  shows "downgrade (upgrade s) = s"
  using tables_round_trip [OF assms] indexes_round_trip [OF assms]
    unique_constraints_round_trip [OF assms]
  by simp

lemma downgrade_removes:
  "tables (downgrade s) ''user_quota_source_usage'' = None \<and>
   (\<forall>u \<in> unique_constraints (downgrade s). uc_table u \<noteq> ''user_quota_source_usage'') \<and>
   (\<forall>cols. tables (downgrade s) ''quota'' = Some cols \<longrightarrow>
      list_all (\<lambda>c. col_name c \<noteq> ''quota_source_label'') cols)"
  by (auto simp: tables_downgrade unique_constraints_downgrade list_all_iff split: option.splits)


text \<open>
  Statements leave the schema alone, and the rows of the usage table stay free of
  duplicates on the constraint's columns.
\<close>

lemma upgrade_has_constraint:
  "uqsu_unique_label_per_user \<in> unique_constraints (upgrade s)"
  by (simp add: upgrade_def Let_def add_column_def create_table_def add_unique_constraint_def
      drop_index_def create_index_def uqsu_unique_label_per_user_def split: option.splits)

lemma execute_schema: "execute st db = Some db' \<Longrightarrow> db_schema db' = db_schema db"
  by (auto simp: execute_def split: statement.splits if_splits)

lemma agree_sym: "agree_on cs r r' \<Longrightarrow> agree_on cs r' r"
  by (induction cs) (auto simp: agree_on_def)

lemma no_dups_append:
  "no_dups cs (xs @ ys) \<longleftrightarrow>
     no_dups cs xs \<and> no_dups cs ys \<and> (\<forall>x \<in> set xs. \<forall>y \<in> set ys. \<not> agree_on cs x y)"
  by (induction xs) auto

lemma no_dups_count:
  "no_dups [''user_id'', ''quota_source_label''] rs \<Longrightarrow>
   length (filter (\<lambda>r. r ''user_id'' = Some a \<and> r ''quota_source_label'' = Some b) rs) \<le> 1"
proof (induction rs)
  case Nil
  then show ?case by simp
next
  case (Cons r rs)
  show ?case
  proof (cases "r ''user_id'' = Some a \<and> r ''quota_source_label'' = Some b")
    case True
    have "filter (\<lambda>r. r ''user_id'' = Some a \<and> r ''quota_source_label'' = Some b) rs = []"
    proof (rule ccontr)
      assume "filter (\<lambda>r. r ''user_id'' = Some a \<and> r ''quota_source_label'' = Some b) rs \<noteq> []"
      then obtain r' where "r' \<in> set rs" "r' ''user_id'' = Some a" "r' ''quota_source_label'' = Some b"
        by (auto simp: filter_empty_conv)
      with True have "agree_on [''user_id'', ''quota_source_label''] r r'"
        by (simp add: agree_on_def)
      with Cons.prems \<open>r' \<in> set rs\<close> show False by auto
    qed
    with True show ?thesis by simp
  next
    case False
    with Cons show ?thesis by auto
  qed
qed

lemma no_dups_update:
  assumes "n < length rs" "no_dups cs (take n rs @ drop (Suc n) rs)"
    "\<forall>r' \<in> set (take n rs @ drop (Suc n) rs). \<not> agree_on cs r r'"
  shows "no_dups cs (rs[n := r])"
proof -
  have "rs[n := r] = take n rs @ r # drop (Suc n) rs"
    using assms(1) by (simp add: upd_conv_take_nth_drop)
  with assms(2,3) show ?thesis
    by (auto simp: no_dups_append dest: agree_sym)
qed

lemma no_dups_delete: "no_dups cs rs \<Longrightarrow> no_dups cs (take n rs @ drop (Suc n) rs)"
proof -
  assume a: "no_dups cs rs"
  have "no_dups cs (take n rs @ drop n rs)" using a by simp
  from this [unfolded no_dups_append] have 1: "no_dups cs (take n rs)" and 2: "no_dups cs (drop n rs)"
    and 3: "\<forall>x \<in> set (take n rs). \<forall>y \<in> set (drop n rs). \<not> agree_on cs x y"
    by blast+
  have 4: "no_dups cs (drop (Suc n) rs)"
  proof (cases "n < length rs")
    case True
    then have "drop n rs = rs ! n # drop (Suc n) rs" by (simp add: Cons_nth_drop_Suc)
    with 2 show ?thesis by simp
  next
    case False then show ?thesis by simp
  qed
  have "set (drop (Suc n) rs) \<subseteq> set (drop n rs)"
    by (metis drop_Suc set_drop_subset_set_drop Suc_n_not_le_n nat_le_linear)
  with 1 3 4 show ?thesis by (auto simp: no_dups_append)
qed

lemma reachable_inv:
  "reachable db0 db \<Longrightarrow>
     uqsu_unique_label_per_user \<in> unique_constraints (db_schema db) \<and>
     no_dups [''user_id'', ''quota_source_label''] (db_rows db ''user_quota_source_usage'')"
proof (induction rule: reachable.induct)
  case (upgraded db0)
  then show ?case by (simp add: run_upgrade_def upgrade_has_constraint)
next
  case (executed db0 db st db')
  then have c: "uqsu_unique_label_per_user \<in> unique_constraints (db_schema db)"
    and nd: "no_dups [''user_id'', ''quota_source_label''] (db_rows db ''user_quota_source_usage'')" by auto
  from executed.hyps(2) have s: "db_schema db' = db_schema db" by (rule execute_schema)
  have viol: "\<not> agree_on [''user_id'', ''quota_source_label''] r r' \<and>
              \<not> agree_on [''user_id'', ''quota_source_label''] r' r"
    if "\<not> violates (db_schema db) ''user_quota_source_usage'' stored r" "r' \<in> set stored"
    for stored r r'
  proof -
    from that c have "\<not> agree_on (uc_columns uqsu_unique_label_per_user) r r'"
      unfolding violates_def by (auto simp: uqsu_unique_label_per_user_def)
    then have "\<not> agree_on [''user_id'', ''quota_source_label''] r r'"
      by (simp add: uqsu_unique_label_per_user_def)
    then show ?thesis using agree_sym by blast
  qed
  have "no_dups [''user_id'', ''quota_source_label''] (db_rows db' ''user_quota_source_usage'')"
  proof (cases st)
    case (Insert t r)
    with executed.hyps(2) nd viol [of "db_rows db t" r] show ?thesis
      by (auto simp: execute_def no_dups_append split: if_splits)
  next
    case (Delete t n)
    with executed.hyps(2) nd show ?thesis
      by (auto simp: execute_def no_dups_delete split: if_splits)
  next
    case (Update t n r)
    with executed.hyps(2) nd
      viol [of "take n (db_rows db t) @ drop (Suc n) (db_rows db t)" r]
    show ?thesis
      by (auto simp: execute_def not_le split: if_splits intro!: no_dups_update no_dups_delete)
  qed
  with c s show ?case by simp
qed

lemma ex_schema_prior: "prior_schema ex_schema"
  by (simp add: prior_schema_def ex_schema_def default_quota_association_type_index_def
      Column_def)

lemma ex_insert:
  "execute (Insert ''user_quota_source_usage'' ex_row) (run_upgrade ex_database)
     = Some ex_database_1"
  by (simp add: execute_def run_upgrade_def ex_database_def ex_database_1_def violates_def
      tables_upgrade)

text \<open>A second row for the same user and label is rejected.\<close>

lemma ex_insert_duplicate_rejected:
  "execute (Insert ''user_quota_source_usage'' (ex_row(''id'' \<mapsto> SqlInt 2))) ex_database_1
     = None"
  by (simp add: execute_def ex_database_1_def violates_def unique_constraints_upgrade
      uqsu_unique_label_per_user_def agree_on_def ex_row_def)

text \<open>
  C7. The upgrade adds the unique constraint \<^verbatim>\<open>uqsu_unique_label_per_user\<close> on
  \<^verbatim>\<open>(user_id, quota_source_label)\<close>. In every database on the upgraded schema whose rows
  are consistent with its unique constraints, and in every state reachable after the
  upgrade by inserts, deletes and updates, for every user id and label (values;
  \<^verbatim>\<open>NULL\<close> equals nothing) at most one row of \<^verbatim>\<open>user_quota_source_usage\<close> holds them,
  and in the reachable states the constraint is still in force. After the
  downgrade the table, every unique constraint on it and the column
  \<^verbatim>\<open>quota.quota_source_label\<close> are gone, and a schema of the prior revision that is
  upgraded and then downgraded is the schema it was.
\<close>

theorem quota_source_labels_migration:
  "uqsu_unique_label_per_user \<in> unique_constraints (upgrade s) \<and>
   (consistent db \<and> db_schema db = upgrade s \<longrightarrow> length (usage_rows db uid label) \<le> 1) \<and>
   (reachable db0 db \<longrightarrow>
      uqsu_unique_label_per_user \<in> unique_constraints (db_schema db) \<and>
      length (usage_rows db uid label) \<le> 1) \<and>
   tables (downgrade s) ''user_quota_source_usage'' = None \<and>
   (\<forall>u \<in> unique_constraints (downgrade s). uc_table u \<noteq> ''user_quota_source_usage'') \<and>
   (\<forall>cols. tables (downgrade s) ''quota'' = Some cols \<longrightarrow>
      list_all (\<lambda>c. col_name c \<noteq> ''quota_source_label'') cols) \<and>
   (prior_schema s \<longrightarrow> downgrade (upgrade s) = s)"
proof -
  have a: "reachable db0 db \<longrightarrow>
          uqsu_unique_label_per_user \<in> unique_constraints (db_schema db) \<and>
          length (usage_rows db uid label) \<le> 1"
    using reachable_inv [of db0 db]
      no_dups_count [of "db_rows db ''user_quota_source_usage''" uid label]
    by (simp add: usage_rows_def)
  have b: "length (usage_rows db uid label) \<le> 1"
    if c: "consistent db" and s: "db_schema db = upgrade s"
  proof -
    from s have "uqsu_unique_label_per_user \<in> unique_constraints (db_schema db)"
      by (simp add: upgrade_has_constraint)
    with c have "no_dups (uc_columns uqsu_unique_label_per_user)
                   (db_rows db (uc_table uqsu_unique_label_per_user))"
      unfolding consistent_def by blast
    then have "no_dups [''user_id'', ''quota_source_label'']
                 (db_rows db ''user_quota_source_usage'')"
      by (simp add: uqsu_unique_label_per_user_def)
    then show ?thesis
      unfolding usage_rows_def by (rule no_dups_count)
  qed
  from a b upgrade_has_constraint [of s] downgrade_removes [of s] downgrade_upgrade [of s]
  show ?thesis by blast
qed

theorem quota_source_labels_migration_witness:
  "reachable ex_database ex_database_1 \<and>
   consistent ex_database_1 \<and>
   db_schema ex_database_1 = upgrade ex_schema \<and>
   uqsu_unique_label_per_user \<in> unique_constraints (db_schema ex_database_1) \<and>
   usage_rows ex_database_1 (SqlInt 1) (SqlStr ''s3'') = [ex_row] \<and>
   length (usage_rows ex_database_1 (SqlInt 1) (SqlStr ''s3'')) \<le> 1 \<and>
   tables (upgrade ex_schema) ''user_quota_source_usage'' = Some user_quota_source_usage_columns \<and>
   tables (downgrade (upgrade ex_schema)) ''user_quota_source_usage'' = None \<and>
   prior_schema ex_schema \<and>
   downgrade (upgrade ex_schema) = ex_schema"
proof -
  have r: "reachable ex_database ex_database_1"
    using reachable.upgraded [of ex_database] ex_insert by (rule reachable.executed)
  have c: "consistent ex_database_1"
    by (simp add: consistent_def ex_database_1_def unique_constraints_upgrade ex_schema_def
        uqsu_unique_label_per_user_def)
  have s: "db_schema ex_database_1 = upgrade ex_schema"
    by (simp add: ex_database_1_def)
  have rows: "usage_rows ex_database_1 (SqlInt 1) (SqlStr ''s3'') = [ex_row]"
    by (simp add: usage_rows_def ex_database_1_def ex_row_def)
  have t: "tables (upgrade ex_schema) ''user_quota_source_usage''
             = Some user_quota_source_usage_columns"
    by (simp add: tables_upgrade)
  from quota_source_labels_migration
         [of "upgrade ex_schema" ex_database_1 "SqlInt 1" "SqlStr ''s3''" ex_database]
       quota_source_labels_migration [of ex_schema ex_database_1 "SqlInt 1" "SqlStr ''s3''"]
       r c s rows t ex_schema_prior
  show ?thesis by blast
qed
section \<open>Properties of the association setters\<close>

lemma set_replace_associations:
  "set (replace_associations anchor target mk protected a new_ids rows) =
     {r \<in> set rows. anchor r \<noteq> a \<or> target r \<in> set new_ids \<or> protected (target r)} \<union>
     mk ` {i \<in> set new_ids. i \<notin> target ` {r \<in> set rows. anchor r = a}}"
  by (auto simp: replace_associations_def)

lemma targets_after_replace:
  assumes mk: "\<And>i. anchor (mk i) = a \<and> target (mk i) = i"
  shows "set (map target (filter (\<lambda>r. anchor r = a)
                (replace_associations anchor target mk protected a new_ids rows))) =
         set new_ids \<union>
         {t \<in> set (map target (filter (\<lambda>r. anchor r = a) rows)). protected t}"
    (is "?L = ?R")
proof (rule set_eqI)
  fix t
  let ?rows' = "replace_associations anchor target mk protected a new_ids rows"
  have L: "t \<in> ?L \<longleftrightarrow> (\<exists>r \<in> set ?rows'. anchor r = a \<and> target r = t)"
    by auto
  have R: "t \<in> ?R \<longleftrightarrow>
             t \<in> set new_ids \<or> (protected t \<and> (\<exists>r \<in> set rows. anchor r = a \<and> target r = t))"
    by auto
  show "t \<in> ?L \<longleftrightarrow> t \<in> ?R"
  proof
    assume "t \<in> ?L"
    then obtain r where r: "r \<in> set ?rows'" "anchor r = a" "target r = t"
      using L by blast
    from r(1) consider
        (old) "r \<in> set rows" "target r \<in> set new_ids \<or> protected (target r)"
      | (new) i where "i \<in> set new_ids" "r = mk i"
      using r(2) unfolding set_replace_associations by blast
    then show "t \<in> ?R"
    proof cases
      case old
      with r show ?thesis unfolding R by blast
    next
      case new
      with r mk [of i] show ?thesis unfolding R by simp
    qed
  next
    assume "t \<in> ?R"
    then consider (listed) "t \<in> set new_ids"
      | (kept) "protected t" "\<exists>r \<in> set rows. anchor r = a \<and> target r = t"
      unfolding R by blast
    then show "t \<in> ?L"
    proof cases
      case listed
      show ?thesis
      proof (cases "\<exists>r \<in> set rows. anchor r = a \<and> target r = t")
        case True
        then obtain r where "r \<in> set rows" "anchor r = a" "target r = t" by blast
        with listed have "r \<in> set ?rows'" unfolding set_replace_associations by blast
        with \<open>anchor r = a\<close> \<open>target r = t\<close> show ?thesis unfolding L by blast
      next
        case False
        then have "t \<notin> target ` {r \<in> set rows. anchor r = a}" by blast
        with listed have "mk t \<in> set ?rows'" unfolding set_replace_associations by blast
        with mk [of t] show ?thesis unfolding L by blast
      qed
    next
      case kept
      then obtain r where "r \<in> set rows" "anchor r = a" "target r = t" by blast
      with kept(1) have "r \<in> set ?rows'" unfolding set_replace_associations by blast
      with \<open>anchor r = a\<close> \<open>target r = t\<close> show ?thesis unfolding L by blast
    qed
  qed
qed

lemma ex_rbac_private: "is_private ex_rbac 10"
  by (simp add: is_private_def ex_rbac_def)

text \<open>
  The model passes the tests it was read against:
  \<^verbatim>\<open>test_private_user_role_assoc_not_affected_by_setting_user_roles\<close>,
  \<^verbatim>\<open>test_private_user_role_assoc_not_affected_by_setting_role_users\<close>,
  \<^verbatim>\<open>TestSetUserGroupAndRoleAssociations.test_update_associations\<close>,
  \<^verbatim>\<open>test_invalid_group\<close> and \<^verbatim>\<open>test_duplicate_role\<close>.
\<close>

lemma test_private_role_kept_when_setting_user_roles:
  "set_user_group_and_role_associations ex_rbac 1 [] [] =
     (None, ex_rbac\<lparr>user_group_association := [], user_role_association := [(1, 10)]\<rparr>)"
  by (simp add: set_user_group_and_role_associations_def valid_ids_def
      replace_associations_def is_private_def ex_rbac_def)

lemma test_private_role_kept_when_setting_role_users:
  "role_users (snd (set_role_user_and_group_associations ex_rbac 10 [] [])) 10 = [1]"
  by (simp add: set_role_user_and_group_associations_def valid_ids_def
      replace_associations_def is_private_def role_users_def ex_rbac_def)

lemma test_update_associations:
  "set_user_group_and_role_associations ex_rbac 1 [21, 22, 24] [13] =
     (None, ex_rbac\<lparr>user_group_association := [(1, 21), (1, 22), (1, 24)],
                    user_role_association := [(1, 10), (1, 13)]\<rparr>)"
  by (simp add: set_user_group_and_role_associations_def valid_ids_def
      replace_associations_def is_private_def ex_rbac_def)

lemma test_invalid_group:
  "set_user_group_and_role_associations ex_rbac 1 [21, - 1] [] =
     (Some RequestParameterInvalidException, ex_rbac)"
  by (simp add: set_user_group_and_role_associations_def valid_ids_def ex_rbac_def)

lemma test_duplicate_role:
  "set_user_group_and_role_associations ex_rbac 1 [21, 22, 23, 24, 25] [11, 12, 13, 14, 15, 11] =
     (Some RequestParameterInvalidException, ex_rbac)"
  by (simp add: set_user_group_and_role_associations_def valid_ids_def ex_rbac_def)

text \<open>
  Likewise for a group anchor and a role anchor:
  \<^verbatim>\<open>TestSetGroupUserAndRoleAssociations.test_update_associations\<close>,
  \<^verbatim>\<open>test_drop_associations\<close> and \<^verbatim>\<open>test_invalid_user\<close>, and
  \<^verbatim>\<open>TestSetRoleUserAndGroupAssociations.test_update_associations\<close> and
  \<^verbatim>\<open>test_duplicate_user\<close>. The users' private roles are untouched throughout.
\<close>

lemma test_group_update_associations:
  "set_group_user_and_role_associations ex_rbac_five 21 [1, 2, 4] [13] =
     (None, ex_rbac_five\<lparr>user_group_association := [(1, 21), (2, 21), (4, 21)],
                         group_role_association := [(23, 11), (21, 13)]\<rparr>)"
  by (simp add: set_group_user_and_role_associations_def valid_ids_def
      replace_associations_def ex_rbac_five_def)

lemma test_group_drop_associations:
  "set_group_user_and_role_associations ex_rbac_five 21 [] [] =
     (None, ex_rbac_five\<lparr>user_group_association := [],
                         group_role_association := [(23, 11)]\<rparr>)"
  by (simp add: set_group_user_and_role_associations_def valid_ids_def
      replace_associations_def ex_rbac_five_def)

lemma test_group_invalid_user:
  "set_group_user_and_role_associations ex_rbac_five 21 [1, - 1] [] =
     (Some RequestParameterInvalidException, ex_rbac_five)"
  by (simp add: set_group_user_and_role_associations_def valid_ids_def ex_rbac_five_def)

lemma test_role_update_associations:
  "set_role_user_and_group_associations ex_rbac_five 11 [1, 3, 5] [21, 23, 25] =
     (None, ex_rbac_five\<lparr>user_role_association :=
                           [(1, 101), (2, 102), (3, 103), (4, 104), (5, 105),
                            (1, 11), (3, 11), (5, 11)],
                         group_role_association :=
                           [(21, 12), (21, 14), (21, 11), (23, 11), (25, 11)]\<rparr>)"
  by (simp add: set_role_user_and_group_associations_def valid_ids_def
      replace_associations_def is_private_def ex_rbac_five_def)

lemma test_role_duplicate_user:
  "set_role_user_and_group_associations ex_rbac_five 11 [1, 2, 3, 4, 5, 1] [21, 22, 23, 24, 25] =
     (Some RequestParameterInvalidException, ex_rbac_five)"
  by (simp add: set_role_user_and_group_associations_def valid_ids_def ex_rbac_five_def)

text \<open>
  Two more facts on the replacement of one association set: it keeps a duplicate-free
  table duplicate-free, and it leaves the rows of every other anchor as they are.
\<close>

lemma distinct_replace_associations:
  assumes mk: "\<And>i. anchor (mk i) = a \<and> target (mk i) = i"
      and d: "distinct rows" "distinct new_ids"
  shows "distinct (replace_associations anchor target mk protected a new_ids rows)"
proof -
  have inj: "inj mk"
    by (rule injI) (metis mk)
  have "mk i \<notin> set rows" if "i \<notin> target ` {r \<in> set rows. anchor r = a}" for i
    using that mk [of i] by force
  with d inj show ?thesis
    unfolding replace_associations_def
    by (auto simp: distinct_map intro: inj_on_subset [OF inj])
qed

lemma other_anchor_unchanged:
  assumes mk: "\<And>i. anchor (mk i) = a" and "b \<noteq> a"
  shows "filter (\<lambda>r. anchor r = b) (replace_associations anchor target mk protected a new_ids rows)
           = filter (\<lambda>r. anchor r = b) rows"
proof -
  have "filter (\<lambda>r. anchor r = b) (map mk xs) = []" for xs
    using mk assms(2) by (induction xs) auto
  moreover have "filter (\<lambda>r. anchor r = b)
                   (filter (\<lambda>r. anchor r \<noteq> a \<or> target r \<in> set new_ids \<or> protected (target r)) rows)
                 = filter (\<lambda>r. anchor r = b) rows"
    using assms(2) by (induction rows) auto
  ultimately show ?thesis by (simp add: replace_associations_def)
qed

text \<open>
  C1. A user's association with a role of type PRIVATE is still there after any call of
  any of the three setters, whatever the anchor and the two lists. Nothing is assumed of
  the user's email and the role's name.
\<close>

theorem private_role_association_preserved:
  assumes assoc: "(u, r) \<in> set (user_role_association db)"
      and priv: "is_private db r"
  shows "(u, r) \<in> set (user_role_association
                         (snd (set_user_group_and_role_associations db a1 group_ids1 role_ids1))) \<and>
         (u, r) \<in> set (user_role_association
                         (snd (set_group_user_and_role_associations db a2 user_ids2 role_ids2))) \<and>
         (u, r) \<in> set (user_role_association
                         (snd (set_role_user_and_group_associations db a3 user_ids3 group_ids3)))"
  using assoc priv
  by (auto simp: set_user_group_and_role_associations_def set_group_user_and_role_associations_def
      set_role_user_and_group_associations_def set_replace_associations)

theorem private_role_association_preserved_witness:
  "(1, 10) \<in> set (user_role_association ex_rbac) \<and>
   is_private ex_rbac 10 \<and>
   map_option email (users ex_rbac 1) \<noteq> map_option role_name (roles ex_rbac 10) \<and>
   (1, 10) \<in> set (user_role_association
                     (snd (set_user_group_and_role_associations ex_rbac 1 [] []))) \<and>
   (1, 10) \<in> set (user_role_association
                     (snd (set_role_user_and_group_associations ex_rbac 10 [] [])))"
proof -
  have assoc: "(1, 10) \<in> set (user_role_association ex_rbac)"
    by (simp add: ex_rbac_def)
  have names: "map_option email (users ex_rbac 1) \<noteq> map_option role_name (roles ex_rbac 10)"
    by (simp add: ex_rbac_def)
  from private_role_association_preserved [OF assoc ex_rbac_private, of 1 "[]" "[]" 1 "[]" "[]" 10 "[]" "[]"]
    assoc ex_rbac_private names
  show ?thesis by blast
qed

text \<open>
  C2. If either list names an id twice or an id of no existing entity, the setter raises
  \<^verbatim>\<open>RequestParameterInvalidException\<close> and the database, hence both association sets
  of the anchor, is what it was.
\<close>

theorem invalid_or_duplicate_ids_rejected:
  "(\<not> distinct group_ids \<or> \<not> distinct role_ids \<or>
    (\<exists>i \<in> set group_ids. groups db i = None) \<or> (\<exists>i \<in> set role_ids. roles db i = None) \<longrightarrow>
      set_user_group_and_role_associations db a group_ids role_ids
        = (Some RequestParameterInvalidException, db)) \<and>
   (\<not> distinct user_ids \<or> \<not> distinct role_ids \<or>
    (\<exists>i \<in> set user_ids. users db i = None) \<or> (\<exists>i \<in> set role_ids. roles db i = None) \<longrightarrow>
      set_group_user_and_role_associations db a user_ids role_ids
        = (Some RequestParameterInvalidException, db)) \<and>
   (\<not> distinct user_ids \<or> \<not> distinct group_ids \<or>
    (\<exists>i \<in> set user_ids. users db i = None) \<or> (\<exists>i \<in> set group_ids. groups db i = None) \<longrightarrow>
      set_role_user_and_group_associations db a user_ids group_ids
        = (Some RequestParameterInvalidException, db))"
  by (auto simp: set_user_group_and_role_associations_def set_group_user_and_role_associations_def
      set_role_user_and_group_associations_def valid_ids_def list_all_iff)

theorem invalid_or_duplicate_ids_rejected_witness:
  "groups ex_rbac (- 1) = None \<and>
   set_user_group_and_role_associations ex_rbac 1 [21, - 1] []
     = (Some RequestParameterInvalidException, ex_rbac) \<and>
   \<not> distinct [11, 12, 11 :: int] \<and>
   set_group_user_and_role_associations ex_rbac 21 [1] [11, 12, 11]
     = (Some RequestParameterInvalidException, ex_rbac) \<and>
   users ex_rbac 2 = None \<and>
   set_role_user_and_group_associations ex_rbac 11 [1, 2] [21]
     = (Some RequestParameterInvalidException, ex_rbac)"
proof -
  have g: "groups ex_rbac (- 1) = None" and u: "users ex_rbac 2 = None"
    by (simp_all add: ex_rbac_def)
  have d: "\<not> distinct [11, 12, 11 :: int]" by simp
  note t = invalid_or_duplicate_ids_rejected
  from t [of "[21, - 1]" "[]" ex_rbac 1] g
  have 1: "set_user_group_and_role_associations ex_rbac 1 [21, - 1] []
             = (Some RequestParameterInvalidException, ex_rbac)"
    by simp
  from t [of _ "[11, 12, 11]" ex_rbac 21 "[1]"] d
  have 2: "set_group_user_and_role_associations ex_rbac 21 [1] [11, 12, 11]
             = (Some RequestParameterInvalidException, ex_rbac)"
    by blast
  from t [of "[21]" _ ex_rbac 11 "[1, 2]"] u
  have 3: "set_role_user_and_group_associations ex_rbac 11 [1, 2] [21]
             = (Some RequestParameterInvalidException, ex_rbac)"
    by simp
  from g 1 d 2 u 3 show ?thesis by blast
qed

text \<open>
  C3 (as amended). With duplicate-free lists of existing ids the setter succeeds, and
  afterwards the anchor is associated with exactly the listed targets, and besides them
  with what was protected before: for a user anchor the roles of type PRIVATE the user
  had, for a role anchor of type PRIVATE the users the role had.
\<close>

theorem valid_ids_replace_association_sets:
  assumes gs: "valid_ids (groups db) group_ids"
      and rs: "valid_ids (roles db) role_ids"
      and us: "valid_ids (users db) user_ids"
  shows "fst (set_user_group_and_role_associations db u group_ids role_ids) = None \<and>
         set (user_groups (snd (set_user_group_and_role_associations db u group_ids role_ids)) u)
           = set group_ids \<and>
         set (user_roles (snd (set_user_group_and_role_associations db u group_ids role_ids)) u)
           = set role_ids \<union> {x \<in> set (user_roles db u). is_private db x} \<and>
         fst (set_group_user_and_role_associations db g user_ids role_ids) = None \<and>
         set (group_users (snd (set_group_user_and_role_associations db g user_ids role_ids)) g)
           = set user_ids \<and>
         set (group_roles (snd (set_group_user_and_role_associations db g user_ids role_ids)) g)
           = set role_ids \<and>
         fst (set_role_user_and_group_associations db r user_ids group_ids) = None \<and>
         set (role_users (snd (set_role_user_and_group_associations db r user_ids group_ids)) r)
           = set user_ids \<union> (if is_private db r then set (role_users db r) else {}) \<and>
         set (role_groups (snd (set_role_user_and_group_associations db r user_ids group_ids)) r)
           = set group_ids"
proof -
  have fs: "\<And>a i. fst (a, i) = a \<and> snd (a, i) = (i::int)"
    and sf: "\<And>a i. snd (i, a) = a \<and> fst (i, a) = (i::int)"
    by simp_all
  note ta = targets_after_replace [where anchor = fst and target = snd, OF fs]
  note tb = targets_after_replace [where anchor = snd and target = fst, OF sf]
  show ?thesis
    using gs rs us
    by (simp add: set_user_group_and_role_associations_def
        set_group_user_and_role_associations_def set_role_user_and_group_associations_def
        user_groups_def user_roles_def group_users_def group_roles_def role_users_def
        role_groups_def ta tb del: set_map set_filter)
qed

theorem valid_ids_replace_association_sets_witness:
  "valid_ids (groups ex_rbac) [21, 22, 24] \<and> valid_ids (roles ex_rbac) [13] \<and>
   valid_ids (users ex_rbac) [] \<and>
   fst (set_user_group_and_role_associations ex_rbac 1 [21, 22, 24] [13]) = None \<and>
   set (user_groups (snd (set_user_group_and_role_associations ex_rbac 1 [21, 22, 24] [13])) 1)
     = {21, 22, 24} \<and>
   set (user_roles (snd (set_user_group_and_role_associations ex_rbac 1 [21, 22, 24] [13])) 1)
     = {13, 10}"
proof -
  have gs: "valid_ids (groups ex_rbac) [21, 22, 24]" and rs: "valid_ids (roles ex_rbac) [13]"
    and us: "valid_ids (users ex_rbac) []"
    by (simp_all add: valid_ids_def ex_rbac_def)
  have p: "{x \<in> set (user_roles ex_rbac 1). is_private ex_rbac x} = {10}"
    by (auto simp: user_roles_def is_private_def ex_rbac_def split: if_splits)
  from valid_ids_replace_association_sets [OF gs rs us, of 1 21 10] p gs rs us
  show ?thesis by auto
qed

text \<open>
  C3, counterexample to the statement that only a user anchor keeps anything besides
  the listed targets. It fails for a role anchor that is a private role: after
  \<^verbatim>\<open>set_role_user_and_group_associations(private_role, user_ids=[], group_ids=[])\<close> the
  role still has its user, as the test
  \<^verbatim>\<open>test_private_user_role_assoc_not_affected_by_setting_role_users\<close> requires.
\<close>

theorem private_role_anchor_counterexample:
  "valid_ids (users ex_rbac) [] \<and> valid_ids (groups ex_rbac) [] \<and>
   fst (set_role_user_and_group_associations ex_rbac 10 [] []) = None \<and>
   role_users (snd (set_role_user_and_group_associations ex_rbac 10 [] [])) 10 = [1] \<and>
   set (role_users (snd (set_role_user_and_group_associations ex_rbac 10 [] [])) 10) \<noteq> set []"
  by (simp add: set_role_user_and_group_associations_def valid_ids_def
      replace_associations_def is_private_def role_users_def ex_rbac_def)

section \<open>Properties of the vault\<close>

text \<open>
  C4. For each of the three backends, reading a path right after writing it returns the
  written value, and after two writes to the same path the second value.
\<close>

theorem vault_read_after_write:
  "read_secret (write_secret vlt path v) path = Inr (Some v) \<and>
   read_secret (write_secret (write_secret vlt path v) path v') path = Inr (Some v')"
  by (cases vlt) (simp_all add: read_secret_def write_secret_def encrypt_def decrypt_def)

text \<open>
  C5. A secret is written by a database vault whose primary key is \<open>K\<close>, and the vault
  is then built again with primary key \<open>K'\<close> and rotated-from keys \<open>rotated\<close>. If \<open>K\<close>
  is among the rotated-from keys, the secret reads back. If \<open>K\<close> is neither the new
  primary key nor among the rotated-from keys, reading raises \<^verbatim>\<open>InvalidToken\<close>, whereas
  reading a path that was never written returns \<^verbatim>\<open>None\<close> without raising.
\<close>

theorem database_vault_key_rotation:
  "(K \<in> set rotated \<longrightarrow>
      read_secret (reconfigure (write_secret (DatabaseVault K old tbl) path v) K' rotated) path
        = Inr (Some v)) \<and>
   (K \<notin> set (K' # rotated) \<longrightarrow>
      read_secret (reconfigure (write_secret (DatabaseVault K old tbl) path v) K' rotated) path
        = Inl InvalidToken) \<and>
   (tbl other = None \<and> other \<noteq> path \<longrightarrow>
      read_secret (reconfigure (write_secret (DatabaseVault K old tbl) path v) K' rotated) other
        = Inr None)"
  by (simp add: read_secret_def write_secret_def reconfigure_def encrypt_def decrypt_def)

theorem database_vault_key_rotation_witness:
  "''key1'' \<in> set [''key1''] \<and>
   read_secret
     (reconfigure
        (write_secret (DatabaseVault ''key1'' [] Map.empty) ''my/rotated/secret'' ''hello rotated'')
        ''key2'' [''key1''])
     ''my/rotated/secret'' = Inr (Some ''hello rotated'') \<and>
   ''key1'' \<notin> set [''key3'', ''key4''] \<and>
   read_secret
     (reconfigure
        (write_secret (DatabaseVault ''key1'' [] Map.empty) ''my/incorrect/secret'' ''hello incorrect'')
        ''key3'' [''key4''])
     ''my/incorrect/secret'' = Inl InvalidToken \<and>
   (Map.empty :: string \<rightharpoonup> token) ''my/other/secret'' = None \<and>
   ''my/other/secret'' \<noteq> ''my/incorrect/secret'' \<and>
   read_secret
     (reconfigure
        (write_secret (DatabaseVault ''key1'' [] Map.empty) ''my/incorrect/secret'' ''hello incorrect'')
        ''key3'' [''key4''])
     ''my/other/secret'' = Inr None"
proof -
  have a: "''key1'' \<in> set [''key1'']" and b: "''key1'' \<notin> set [''key3'', ''key4'']"
    and c: "(Map.empty :: string \<rightharpoonup> token) ''my/other/secret'' = None"
    and d: "''my/other/secret'' \<noteq> ''my/incorrect/secret''"
    by simp_all
  note t = database_vault_key_rotation
  from t [of "''key1''" "[''key1'']" "[]" Map.empty "''my/rotated/secret''" "''hello rotated''"
        "''key2''"] a
  have 1: "read_secret
             (reconfigure
                (write_secret (DatabaseVault ''key1'' [] Map.empty) ''my/rotated/secret''
                   ''hello rotated'')
                ''key2'' [''key1''])
             ''my/rotated/secret'' = Inr (Some ''hello rotated'')"
    by blast
  from t [of "''key1''" "[''key4'']" "[]" Map.empty "''my/incorrect/secret''" "''hello incorrect''"
        "''key3''" "''my/other/secret''"] b c d
  have 2: "read_secret
             (reconfigure
                (write_secret (DatabaseVault ''key1'' [] Map.empty) ''my/incorrect/secret''
                   ''hello incorrect'')
                ''key3'' [''key4''])
             ''my/incorrect/secret'' = Inl InvalidToken"
    and 3: "read_secret
             (reconfigure
                (write_secret (DatabaseVault ''key1'' [] Map.empty) ''my/incorrect/secret''
                   ''hello incorrect'')
                ''key3'' [''key4''])
             ''my/other/secret'' = Inr None"
    by blast+
  from a 1 b 2 c d 3 show ?thesis by blast
qed

end
